theory Spec2Isabelle
  imports Main "HOL-Library.Sublist"
begin

section \<open>JavaScript values as they reach the route handler\<close>

text \<open>
  The route handler of \<^verbatim>\<open>src/app/api/mcp/route.ts\<close> works on untyped values
  (\<^verbatim>\<open>any\<close>) obtained from \<^verbatim>\<open>request.json()\<close>.  They are modelled by the
  datatype below.  An object is the list of its own enumerable properties in the order in
  which \<^verbatim>\<open>Object.keys\<close> enumerates them; its keys are pairwise distinct.  Numbers
  are restricted to integers that a double holds exactly (below \<open>2\<^sup>5\<^sup>3\<close> in absolute
  value, printed in decimal), and strings to ASCII text.
\<close>

datatype json =
    JUndefined
  | JNull
  | JBool bool
  | JNum int
  | JStr string
  | JArr "json list"
  | JObj "(string \<times> json) list"

datatype exn = Error string | TypeError string

fun message :: "exn \<Rightarrow> string" where
  "message (Error m) = m"
| "message (TypeError m) = m"

definition nl :: string where
  "nl = [CHR 0x0A]"

text \<open>Truthiness, as tested by \<^verbatim>\<open>if (v)\<close>, \<^verbatim>\<open>!v\<close> and \<^verbatim>\<open>a || b\<close>.\<close>

fun truthy :: "json \<Rightarrow> bool" where
  "truthy JUndefined = False"
| "truthy JNull = False"
| "truthy (JBool b) = b"
| "truthy (JNum n) = (n \<noteq> 0)"
| "truthy (JStr s) = (s \<noteq> [])"
| "truthy (JArr xs) = True"
| "truthy (JObj kvs) = True"

definition jsOr :: "json \<Rightarrow> json \<Rightarrow> json" where
  "jsOr a b = (if truthy a then a else b)"

definition nullish :: "json \<Rightarrow> bool" where
  "nullish v = (v = JUndefined \<or> v = JNull)"

text \<open>\<^verbatim>\<open>typeof v === 'object'\<close> holds of objects, arrays and \<^verbatim>\<open>null\<close>.\<close>

fun typeofObject :: "json \<Rightarrow> bool" where
  "typeofObject JNull = True"
| "typeofObject (JArr xs) = True"
| "typeofObject (JObj kvs) = True"
| "typeofObject v = False"

fun isArray :: "json \<Rightarrow> bool" where
  "isArray (JArr xs) = True"
| "isArray v = False"

text \<open>Decimal rendering of integers, used by string interpolation and by array indices.\<close>

definition digitChar :: "nat \<Rightarrow> char" where
  "digitChar d = ''0123456789'' ! d"

function showNat :: "nat \<Rightarrow> string" where
  "showNat n = (if n < 10 then [digitChar n] else showNat (n div 10) @ [digitChar (n mod 10)])"
  by pat_completeness auto
termination
  by (relation "measure id") auto

declare showNat.simps [simp del]

definition showInt :: "int \<Rightarrow> string" where
  "showInt i = (if i < 0 then CHR ''-'' # showNat (nat (- i)) else showNat (nat i))"

fun joinWith :: "string \<Rightarrow> string list \<Rightarrow> string" where
  "joinWith sep [] = []"
| "joinWith sep [x] = x"
| "joinWith sep (x # y # ys) = x @ sep @ joinWith sep (y # ys)"

text \<open>
  String conversion, as performed by a template literal \<^verbatim>\<open>`${v}`\<close> and by
  \<^verbatim>\<open>new Error(v)\<close>.  It is what JavaScript computes for the values of the header:
  integers that a double holds exactly and prints in full (below \<open>2\<^sup>5\<^sup>3\<close> in absolute value),
  and objects and arrays parsed from JSON that have no own property \<^verbatim>\<open>toString\<close>,
  \<^verbatim>\<open>valueOf\<close> or \<^verbatim>\<open>join\<close>.  Larger numbers, fractions and objects that override their
  conversion are outside the model.
\<close>

fun toStr :: "json \<Rightarrow> string" where
  "toStr JUndefined = ''undefined''"
| "toStr JNull = ''null''"
| "toStr (JBool b) = (if b then ''true'' else ''false'')"
| "toStr (JNum n) = showInt n"
| "toStr (JStr s) = s"
| "toStr (JArr xs) =
     joinWith '','' (map (\<lambda>x. if x = JUndefined \<or> x = JNull then [] else toStr x) xs)"
| "toStr (JObj kvs) = ''[object Object]''"

text \<open>
  Own enumerable properties.  An array and a string have their indices as keys; numbers and
  booleans have none.  Inherited and non-enumerable properties (\<^verbatim>\<open>length\<close>, methods) are
  not modelled: the code never reads a property of that name through \<open>getProp\<close>.
\<close>

fun ownEntries :: "json \<Rightarrow> (string \<times> json) list" where
  "ownEntries (JObj kvs) = kvs"
| "ownEntries (JArr xs) = zip (map showNat [0..<length xs]) xs"
| "ownEntries (JStr s) = zip (map showNat [0..<length s]) (map (\<lambda>c. JStr [c]) s)"
| "ownEntries v = []"

definition objectKeys :: "json \<Rightarrow> string list" where
  "objectKeys v = map fst (ownEntries v)"

text \<open>
  Property read \<^verbatim>\<open>v.k\<close> and \<^verbatim>\<open>v[k]\<close> on a receiver that is neither
  \<^verbatim>\<open>null\<close> nor \<^verbatim>\<open>undefined\<close>; a missing property reads as \<^verbatim>\<open>undefined\<close>.
  On a nullish receiver JavaScript throws; \<open>readProp\<close> writes that out, and \<open>optProp\<close> is
  the optional chain \<^verbatim>\<open>v?.k\<close>.
\<close>

definition getProp :: "json \<Rightarrow> string \<Rightarrow> json" where
  "getProp v k = (case map_of (ownEntries v) k of Some x \<Rightarrow> x | None \<Rightarrow> JUndefined)"

definition cannotRead :: "json \<Rightarrow> string \<Rightarrow> exn" where
  "cannotRead v k =
     TypeError (''Cannot read properties of '' @ toStr v @ '' (reading '' @ [CHR 0x27] @ k @ [CHR 0x27] @ '')'')"

definition readProp :: "json \<Rightarrow> string \<Rightarrow> exn + json" where
  "readProp v k = (if nullish v then Inl (cannotRead v k) else Inr (getProp v k))"

definition optProp :: "json \<Rightarrow> string \<Rightarrow> json" where
  "optProp v k = (if nullish v then JUndefined else getProp v k)"

text \<open>
  What \<^verbatim>\<open>JSON.stringify\<close> puts on the wire: a property whose value is
  \<^verbatim>\<open>undefined\<close> is left out, an \<^verbatim>\<open>undefined\<close> array element becomes \<^verbatim>\<open>null\<close>.
\<close>

fun wire :: "json \<Rightarrow> json" where
  "wire (JArr xs) = JArr (map (\<lambda>x. if x = JUndefined then JNull else wire x) xs)"
| "wire (JObj kvs) =
     JObj (map (\<lambda>(k, v). (k, wire v)) (filter (\<lambda>(k, v). v \<noteq> JUndefined) kvs))"
| "wire v = v"

section \<open>String helpers\<close>

definition isSpace :: "char \<Rightarrow> bool" where
  "isSpace c = (c \<in> set [CHR 0x09, CHR 0x0A, CHR 0x0B, CHR 0x0C, CHR 0x0D, CHR 0x20])"

text \<open>\<^verbatim>\<open>String.prototype.trim\<close>.\<close>

definition trim :: "string \<Rightarrow> string" where
  "trim s = rev (dropWhile isSpace (rev (dropWhile isSpace s)))"

text \<open>The regular-expression class \<^verbatim>\<open>\w\<close>.\<close>

definition isWordChar :: "char \<Rightarrow> bool" where
  "isWordChar c =
     (c \<in> set (''abcdefghijklmnopqrstuvwxyz'' @ ''ABCDEFGHIJKLMNOPQRSTUVWXYZ'' @ ''0123456789_''))"

definition toUpperChar :: "char \<Rightarrow> char" where
  "toUpperChar c =
     (case map_of (zip ''abcdefghijklmnopqrstuvwxyz'' ''ABCDEFGHIJKLMNOPQRSTUVWXYZ'') c of
        Some u \<Rightarrow> u
      | None \<Rightarrow> c)"

text \<open>\<^verbatim>\<open>s.toUpperCase()\<close> on ASCII text.\<close>

definition toUpperCase :: "string \<Rightarrow> string" where
  "toUpperCase s = map toUpperChar s"

text \<open>\<^verbatim>\<open>key.replace(/_/g, ' ')\<close>.\<close>

definition replaceUnderscores :: "string \<Rightarrow> string" where
  "replaceUnderscores s = map (\<lambda>c. if c = CHR ''_'' then CHR '' '' else c) s"

text \<open>
  \<^verbatim>\<open>s.replace(/\b\w/g, l => l.toUpperCase())\<close>: a match is a single word character with
  a word boundary in front of it, that is, one at the start of the string or one whose
  predecessor is not a word character.  The flag says whether the previous character was a
  word character.
\<close>

fun capitalizeWords :: "bool \<Rightarrow> string \<Rightarrow> string" where
  "capitalizeWords prev [] = []"
| "capitalizeWords prev (c # cs) =
     (if isWordChar c \<and> \<not> prev then toUpperChar c else c) # capitalizeWords (isWordChar c) cs"

text \<open>The \<^verbatim>\<open>label\<close> of a key of the technical perspective (route.ts, line 228).\<close>

definition label :: "string \<Rightarrow> string" where
  "label key = capitalizeWords False (replaceUnderscores key)"

section \<open>The context transformer\<close>

record ConsensusMessage =
  role :: string
  content :: string

record ProjectMetadata =
  project_name :: json
  project_description :: json
  target_users :: json
  platform :: json
  timeline :: json
  team_size :: json

record Transformed =
  consensus_messages :: "ConsensusMessage list"
  project_metadata :: ProjectMetadata

text \<open>The template literal of the system message (route.ts, lines 184--191).\<close>

definition systemContent :: "json \<Rightarrow> string" where
  "systemContent projectSummary =
     ''Project: ''
       @ toStr (jsOr (jsOr (getProp projectSummary ''project_name'')
                           (getProp projectSummary ''projectName'')) (JStr ''Untitled Project''))
       @ nl @ nl
       @ toStr (jsOr (jsOr (getProp projectSummary ''project_description'')
                           (getProp projectSummary ''projectDescription'')) (JStr ''''))
       @ nl @ nl @ ''Target Users: ''
       @ toStr (jsOr (jsOr (getProp projectSummary ''target_users'')
                           (getProp projectSummary ''targetUsers'')) (JStr ''Not specified''))
       @ nl @ ''Platform: ''
       @ toStr (jsOr (getProp projectSummary ''platform'') (JStr ''Not specified''))
       @ nl @ ''Timeline: ''
       @ toStr (jsOr (getProp projectSummary ''timeline'') (JStr ''Not specified''))
       @ nl @ ''Team Size: ''
       @ toStr (jsOr (jsOr (getProp projectSummary ''team_size'')
                           (getProp projectSummary ''teamSize'')) (JStr ''Not specified''))"

text \<open>
  The product block (lines 201--220).  \<^verbatim>\<open>features.forEach\<close> exists on arrays only; on any
  other truthy value the call throws a \<^verbatim>\<open>TypeError\<close>.
\<close>

definition alexContent :: "json \<Rightarrow> exn + string" where
  "alexContent product =
     (let c0 = ''Product Manager Perspective - MVP Requirements:'' @ nl @ nl;
          features = jsOr (getProp product ''mvp_features'') (getProp product ''mvpFeatures'');
          users = jsOr (getProp product ''target_users'') (getProp product ''targetUsers'');
          approach = jsOr (getProp product ''development_approach'')
                          (getProp product ''developmentApproach'');
          rest = (\<lambda>c1.
            let c2 = (if truthy users then c1 @ nl @ ''Target Users: '' @ toStr users else c1);
                c3 = (if truthy approach
                      then c2 @ nl @ ''Development Approach: '' @ toStr approach else c2)
            in trim c3)
      in if truthy features
         then (case features of
                 JArr fs \<Rightarrow>
                   Inr (rest (foldl (\<lambda>acc feature. acc @ ''- '' @ toStr feature @ nl)
                                    (c0 @ ''MVP Features:'' @ nl) fs))
               | _ \<Rightarrow> Inl (TypeError ''features.forEach is not a function''))
         else Inr (rest c0))"

text \<open>The technical block (lines 223--233).\<close>

definition blakeContent :: "json \<Rightarrow> string" where
  "blakeContent tech =
     trim (foldl (\<lambda>acc key. acc @ label key @ '': '' @ toStr (getProp tech key) @ nl)
                 (''Technical Architect Perspective - Architecture & Stack:'' @ nl @ nl)
                 (objectKeys tech))"

text \<open>The project block (lines 236--261).\<close>

definition caseyContent :: "json \<Rightarrow> string" where
  "caseyContent project =
     (let c0 = ''Project Manager Perspective - Timeline & Execution:'' @ nl @ nl;
          c1 = (if truthy (getProp project ''timeline'')
                then c0 @ ''Timeline: '' @ toStr (getProp project ''timeline'') @ nl else c0);
          c2 = (if truthy (getProp project ''team'')
                then c1 @ ''Team Composition: '' @ toStr (getProp project ''team'') @ nl else c1);
          milestones = getProp project ''milestones'';
          c3 = (if truthy milestones
                then foldl (\<lambda>acc key. acc @ ''- '' @ toUpperCase (replaceUnderscores key) @ '': ''
                                         @ toStr (getProp milestones key) @ nl)
                           (c2 @ nl @ ''Milestones:'' @ nl) (objectKeys milestones)
                else c2);
          c4 = (if truthy (getProp project ''testing'')
                then c3 @ nl @ ''Testing Strategy: '' @ toStr (getProp project ''testing'') else c3)
      in trim c4)"

text \<open>
  The messages derived from \<^verbatim>\<open>finalDecisions\<close> (lines 199--262), in the order in which
  they are pushed.
\<close>

definition decisionMessages :: "json \<Rightarrow> exn + ConsensusMessage list" where
  "decisionMessages finalDecisions =
     (if truthy finalDecisions
      then (let tail =
                  (if truthy (getProp finalDecisions ''technical'')
                   then [\<lparr>role = ''blake'',
                          content = blakeContent (getProp finalDecisions ''technical'')\<rparr>]
                   else [])
                  @ (if truthy (getProp finalDecisions ''project'')
                     then [\<lparr>role = ''casey'',
                            content = caseyContent (getProp finalDecisions ''project'')\<rparr>]
                     else [])
            in if truthy (getProp finalDecisions ''product'')
               then (case alexContent (getProp finalDecisions ''product'') of
                       Inl e \<Rightarrow> Inl e
                     | Inr c \<Rightarrow> Inr (\<lparr>role = ''alex'', content = c\<rparr> # tail))
               else Inr tail)
      else Inr [])"

text \<open>
  The metadata (lines 265--273).  A field that was assigned \<^verbatim>\<open>undefined\<close> and a field
  that was never assigned are both \<open>JUndefined\<close>: neither is serialised.
\<close>

definition metadata :: "json \<Rightarrow> ProjectMetadata" where
  "metadata projectSummary =
     (if truthy projectSummary
      then \<lparr>project_name = jsOr (getProp projectSummary ''project_name'')
                                (getProp projectSummary ''projectName''),
            project_description = jsOr (getProp projectSummary ''project_description'')
                                       (getProp projectSummary ''projectDescription''),
            target_users = jsOr (getProp projectSummary ''target_users'')
                                (getProp projectSummary ''targetUsers''),
            platform = getProp projectSummary ''platform'',
            timeline = getProp projectSummary ''timeline'',
            team_size = jsOr (getProp projectSummary ''team_size'')
                             (getProp projectSummary ''teamSize'')\<rparr>
      else \<lparr>project_name = JUndefined, project_description = JUndefined,
            target_users = JUndefined, platform = JUndefined, timeline = JUndefined,
            team_size = JUndefined\<rparr>)"

definition transformProjectContext :: "json \<Rightarrow> exn + Transformed" where
  "transformProjectContext projectContext =
     (if nullish projectContext then Inl (cannotRead projectContext ''project_summary'')
      else
        (let projectSummary = jsOr (getProp projectContext ''project_summary'')
                                   (getProp projectContext ''projectSummary'');
             messages = (if truthy projectSummary
                         then [\<lparr>role = ''system'', content = systemContent projectSummary\<rparr>]
                         else []);
             finalDecisions = jsOr (getProp projectContext ''final_decisions'')
                                   (getProp projectContext ''finalDecisions'')
         in case decisionMessages finalDecisions of
              Inl e \<Rightarrow> Inl e
            | Inr ms \<Rightarrow>
                Inr \<lparr>consensus_messages = messages @ ms,
                     project_metadata = metadata projectSummary\<rparr>))"

section \<open>The backend client\<close>

text \<open>
  The service base URL: \<^verbatim>\<open>process.env.STORYCRAFTER_SERVICE_URL || '...'\<close> (route.ts,
  line 10).  The handlers below take the resolved URL as \<open>base\<close>.
\<close>

definition STORYCRAFTER_SERVICE_URL :: "string option \<Rightarrow> string" where
  "STORYCRAFTER_SERVICE_URL env =
     (case env of
        None \<Rightarrow> ''https://storycrafter-service.vercel.app''
      | Some u \<Rightarrow> if u = [] then ''https://storycrafter-service.vercel.app'' else u)"

text \<open>
  What an \<^verbatim>\<open>axios\<close> call can come to: a response with status, status text and parsed
  body; no response (time-out or connection failure: \<^verbatim>\<open>error.request\<close> is set); or a
  failure before anything was sent (only \<^verbatim>\<open>error.message\<close> is set).  With the default
  \<^verbatim>\<open>validateStatus\<close> of axios the promise resolves for a status in \<open>200..299\<close> and
  rejects, with \<^verbatim>\<open>error.response\<close> set, for any other status.
\<close>

datatype AxiosOutcome =
    Responded nat string json
  | NoResponse string
  | NotSent string

datatype HttpCall =
    Post string json nat
  | Get string nat

type_synonym Backend = "string \<Rightarrow> json \<Rightarrow> AxiosOutcome"

text \<open>
  The \<^verbatim>\<open>try { ... } catch (error) { ... }\<close> block that the four handlers share word for
  word (route.ts, lines 297--334, 352--391, 413--452, 478--518), with what differs between
  them as parameters: the path, the request body, the time-out, the default failure text and
  the key of the result.  The result is the object handed to \<^verbatim>\<open>JSON.stringify\<close>.
  An error thrown inside the \<^verbatim>\<open>try\<close> block is caught by the same \<^verbatim>\<open>catch\<close>
  clause; it has neither \<^verbatim>\<open>response\<close> nor \<^verbatim>\<open>request\<close>.
\<close>

definition postToService ::
  "string \<Rightarrow> Backend \<Rightarrow> string \<Rightarrow> json \<Rightarrow> nat \<Rightarrow> string \<Rightarrow> string
     \<Rightarrow> HttpCall list \<times> (exn + json)" where
  "postToService base backend path payload timeoutMs failure key =
     ([Post (base @ path) (wire payload) timeoutMs],
      case backend (base @ path) (wire payload) of
        Responded status statusText data \<Rightarrow>
          if 200 \<le> status \<and> status < 300
          then (case readProp data ''success'' of
                  Inl e \<Rightarrow> Inl (Error (''Request error: '' @ message e))
                | Inr ok \<Rightarrow>
                    if \<not> truthy ok
                    then Inl (Error (''Request error: ''
                               @ message (Error (toStr (jsOr (getProp data ''error'')
                                                             (JStr failure))))))
                    else Inr (JObj [(''success'', JBool True),
                                    (key, getProp data key),
                                    (''metadata'', getProp data ''metadata'')]))
          else Inl (Error (''StoryCrafter service error: ''
                     @ toStr (jsOr (optProp data ''detail'') (JStr statusText))))
      | NoResponse m \<Rightarrow> Inl (Error (''StoryCrafter service unavailable: '' @ base))
      | NotSent m \<Rightarrow> Inl (Error (''Request error: '' @ m)))"

section \<open>Tool handlers\<close>

definition messageJson :: "ConsensusMessage \<Rightarrow> json" where
  "messageJson m = JObj [(''role'', JStr (role m)), (''content'', JStr (content m))]"

definition metadataJson :: "ProjectMetadata \<Rightarrow> json" where
  "metadataJson m =
     JObj [(''project_name'', project_name m),
           (''project_description'', project_description m),
           (''target_users'', target_users m),
           (''platform'', platform m),
           (''timeline'', timeline m),
           (''team_size'', team_size m)]"

fun isString :: "json \<Rightarrow> bool" where
  "isString (JStr s) = True"
| "isString v = False"

definition handleGenerateEpics :: "string \<Rightarrow> Backend \<Rightarrow> json \<Rightarrow> HttpCall list \<times> (exn + json)" where
  "handleGenerateEpics base backend args =
     (let project_context = getProp args ''project_context'' in
      if \<not> truthy project_context \<or> \<not> typeofObject project_context
      then ([], Inl (Error ''project_context is required and must be an object''))
      else if \<not> truthy (getProp project_context ''project_summary'')
              \<or> \<not> truthy (getProp project_context ''final_decisions'')
      then ([], Inl (Error ''project_context must include project_summary and final_decisions''))
      else (case transformProjectContext project_context of
              Inl e \<Rightarrow> ([], Inl e)
            | Inr t \<Rightarrow>
                postToService base backend ''/generate-epics''
                  (JObj [(''consensus_messages'', JArr (map messageJson (consensus_messages t))),
                         (''project_metadata'', metadataJson (project_metadata t))])
                  60000 ''Epic generation failed'' ''epics''))"

definition handleGenerateStories :: "string \<Rightarrow> Backend \<Rightarrow> json \<Rightarrow> HttpCall list \<times> (exn + json)" where
  "handleGenerateStories base backend args =
     (let project_context = getProp args ''project_context'';
          epics = getProp args ''epics''
      in
      if \<not> truthy project_context \<or> \<not> typeofObject project_context
      then ([], Inl (Error ''project_context is required and must be an object''))
      else if \<not> truthy epics \<or> \<not> isArray epics
      then ([], Inl (Error ''epics is required and must be an array''))
      else (case transformProjectContext project_context of
              Inl e \<Rightarrow> ([], Inl e)
            | Inr t \<Rightarrow>
                postToService base backend ''/generate-stories''
                  (JObj [(''epic'', getProp epics ''0''),
                         (''consensus_messages'', JArr (map messageJson (consensus_messages t))),
                         (''project_metadata'', metadataJson (project_metadata t))])
                  600000 ''Story generation failed'' ''stories''))"

definition handleRegenerateEpic :: "string \<Rightarrow> Backend \<Rightarrow> json \<Rightarrow> HttpCall list \<times> (exn + json)" where
  "handleRegenerateEpic base backend args =
     (let project_context = getProp args ''project_context'';
          epic = getProp args ''epic'';
          user_feedback = getProp args ''user_feedback''
      in
      if \<not> truthy project_context \<or> \<not> typeofObject project_context
      then ([], Inl (Error ''project_context is required and must be an object''))
      else if \<not> truthy epic \<or> \<not> typeofObject epic
      then ([], Inl (Error ''epic is required and must be an object''))
      else if \<not> truthy user_feedback \<or> \<not> isString user_feedback
      then ([], Inl (Error ''user_feedback is required and must be a string''))
      else (case transformProjectContext project_context of
              Inl e \<Rightarrow> ([], Inl e)
            | Inr t \<Rightarrow>
                postToService base backend ''/regenerate-epic''
                  (JObj [(''epic'', epic),
                         (''user_feedback'', user_feedback),
                         (''consensus_messages'', JArr (map messageJson (consensus_messages t))),
                         (''project_metadata'', metadataJson (project_metadata t))])
                  60000 ''Epic regeneration failed'' ''epic''))"

definition handleRegenerateStory :: "string \<Rightarrow> Backend \<Rightarrow> json \<Rightarrow> HttpCall list \<times> (exn + json)" where
  "handleRegenerateStory base backend args =
     (let project_context = getProp args ''project_context'';
          epic = getProp args ''epic'';
          story = getProp args ''story'';
          user_feedback = getProp args ''user_feedback''
      in
      if \<not> truthy project_context \<or> \<not> typeofObject project_context
      then ([], Inl (Error ''project_context is required and must be an object''))
      else if \<not> truthy epic \<or> \<not> typeofObject epic
      then ([], Inl (Error ''epic is required and must be an object''))
      else if \<not> truthy story \<or> \<not> typeofObject story
      then ([], Inl (Error ''story is required and must be an object''))
      else if \<not> truthy user_feedback \<or> \<not> isString user_feedback
      then ([], Inl (Error ''user_feedback is required and must be a string''))
      else (case transformProjectContext project_context of
              Inl e \<Rightarrow> ([], Inl e)
            | Inr t \<Rightarrow>
                postToService base backend ''/regenerate-story''
                  (JObj [(''epic'', epic),
                         (''story'', story),
                         (''user_feedback'', user_feedback),
                         (''consensus_messages'', JArr (map messageJson (consensus_messages t))),
                         (''project_metadata'', metadataJson (project_metadata t))])
                  180000 ''Story regeneration failed'' ''story''))"

section \<open>The request handler\<close>

text \<open>
  The body of a response: the static tool list, a tool result
  \<^verbatim>\<open>{content: [{type: 'text', text: JSON.stringify(v, null, 2)}]}\<close> given by \<open>v\<close>, or
  \<^verbatim>\<open>{error: {code, message}}\<close>.
\<close>

datatype ResponseBody =
    ToolList
  | ToolResult json
  | ErrorBody int string

record HttpResponse =
  status :: nat
  payload :: ResponseBody

definition MCP_TOOL_NAMES :: "string list" where
  "MCP_TOOL_NAMES = [''generate_epics'', ''generate_stories'', ''regenerate_epic'', ''regenerate_story'']"

text \<open>
  The outer \<^verbatim>\<open>catch\<close> of \<^verbatim>\<open>POST\<close> (lines 583--594), applied to the outcome of a
  handler: a result is returned with the default status 200, an error becomes status 500.
\<close>

definition respond :: "HttpCall list \<times> (exn + json) \<Rightarrow> HttpCall list \<times> HttpResponse" where
  "respond r =
     (case r of
        (calls, Inr v) \<Rightarrow> (calls, \<lparr>status = 200, payload = ToolResult v\<rparr>)
      | (calls, Inl e) \<Rightarrow>
          (calls, \<lparr>status = 500,
                   payload = ErrorBody (- 32603)
                     (if message e = [] then ''Internal error'' else message e)\<rparr>))"

text \<open>
  \<^verbatim>\<open>POST\<close> (lines 525--595).  The argument is the outcome of
  \<^verbatim>\<open>await request.json()\<close>: the parsed body, or the error the parser threw.
\<close>

definition POST :: "string \<Rightarrow> Backend \<Rightarrow> exn + json \<Rightarrow> HttpCall list \<times> HttpResponse" where
  "POST base backend parsed =
     (case parsed of
        Inl e \<Rightarrow> respond ([], Inl e)
      | Inr body \<Rightarrow>
          (case readProp body ''method'' of
             Inl e \<Rightarrow> respond ([], Inl e)
           | Inr method \<Rightarrow>
               if method = JStr ''tools/list''
               then ([], \<lparr>status = 200, payload = ToolList\<rparr>)
               else if method = JStr ''tools/call''
               then (let toolName = optProp (getProp body ''params'') ''tool'';
                         args = jsOr (optProp (getProp body ''params'') ''arguments'') (JObj [])
                     in
                     if toolName = JStr ''generate_epics''
                     then respond (handleGenerateEpics base backend args)
                     else if toolName = JStr ''generate_stories''
                     then respond (handleGenerateStories base backend args)
                     else if toolName = JStr ''regenerate_epic''
                     then respond (handleRegenerateEpic base backend args)
                     else if toolName = JStr ''regenerate_story''
                     then respond (handleRegenerateStory base backend args)
                     else ([], \<lparr>status = 400,
                                payload = ErrorBody (- 32601)
                                            (''Unknown tool: '' @ toStr toolName)\<rparr>))
               else ([], \<lparr>status = 400,
                          payload = ErrorBody (- 32601)
                                      (''Method not found: '' @ toStr method)\<rparr>)))"

section \<open>The bearer-token variant\<close>

text \<open>
  The variant of the route handler that resolves an AI provider from the project registry
  (\<^verbatim>\<open>src/unnamed/part_000\<close>).  Its transformer is the one above, character for
  character.  The project configuration is the body of the registry's response, returned by
  \<^verbatim>\<open>getProjectConfig\<close> as it came: the interfaces of lines 33--60 are not checked at run
  time, so the configuration is an untyped value like every other.
\<close>

text \<open>
  The type \<^verbatim>\<open>keyof AIProviderConfig['preferences']\<close> of the task: the callers pass one
  of these five literals, and \<open>taskKey\<close> is the property name it stands for.
\<close>

datatype Task =
    EpicGeneration
  | StoryGeneration
  | AgentConversations
  | ProjectDescription
  | ContextLoading

fun taskKey :: "Task \<Rightarrow> string" where
  "taskKey EpicGeneration = ''epicGeneration''"
| "taskKey StoryGeneration = ''storyGeneration''"
| "taskKey AgentConversations = ''agentConversations''"
| "taskKey ProjectDescription = ''projectDescription''"
| "taskKey ContextLoading = ''contextLoading''"

text \<open>The object \<^verbatim>\<open>{provider, model, apiKey}\<close> that the resolver returns.\<close>

record AIProviderSelection =
  selectedProvider :: json
  selectedModel :: json
  apiKey :: json

text \<open>
  \<^verbatim>\<open>getAIProviderForTask\<close> (part_000, lines 109--149).  The reads
  \<^verbatim>\<open>config.configs.aiProvider\<close> and \<^verbatim>\<open>aiConfig.preferences[task]\<close> throw a
  \<^verbatim>\<open>TypeError\<close> when the object they read from is \<^verbatim>\<open>null\<close> or \<^verbatim>\<open>undefined\<close>.  The
  \<^verbatim>\<open>switch\<close> leaves \<^verbatim>\<open>apiKey\<close> undefined for a provider that is none of its three
  cases.
\<close>

definition getAIProviderForTask :: "json \<Rightarrow> Task \<Rightarrow> exn + AIProviderSelection" where
  "getAIProviderForTask config task =
     (case readProp config ''configs'' of
        Inl e \<Rightarrow> Inl e
      | Inr configs \<Rightarrow>
          (case readProp configs ''aiProvider'' of
             Inl e \<Rightarrow> Inl e
           | Inr aiConfig \<Rightarrow>
               if \<not> truthy aiConfig
               then Inl (Error ''AI provider configuration not found in project config'')
               else
                 (case readProp (getProp aiConfig ''preferences'') (taskKey task) of
                    Inl e \<Rightarrow> Inl e
                  | Inr p \<Rightarrow>
                      (let preference =
                             jsOr p (JObj [(''provider'', JStr ''anthropic''),
                                           (''model'', JStr ''claude-sonnet-4.5'')]);
                           key =
                             (if getProp preference ''provider'' = JStr ''anthropic''
                              then getProp aiConfig ''anthropicApiKey''
                              else if getProp preference ''provider'' = JStr ''openai''
                              then getProp aiConfig ''openaiApiKey''
                              else if getProp preference ''provider'' = JStr ''openrouter''
                              then getProp aiConfig ''openrouterApiKey''
                              else JUndefined)
                       in if \<not> truthy key
                          then Inl (Error (''API key not found for provider: ''
                                            @ toStr (getProp preference ''provider'')))
                          else Inr \<lparr>selectedProvider = getProp preference ''provider'',
                                    selectedModel = getProp preference ''model'',
                                    apiKey = key\<rparr>))))"

text \<open>
  What the registry call of \<^verbatim>\<open>getProjectConfig\<close> (lines 78--104) can come to: a
  response with a status in \<open>200..299\<close> and its parsed body, or a rejected request with the
  status of the response, if there was one, and the error's message.  The body is returned
  unchecked when it is truthy; the log line reads \<^verbatim>\<open>response.data.projectId\<close> before the
  test \<^verbatim>\<open>!response.data\<close>, and both failures are caught by the handler's own
  \<^verbatim>\<open>catch\<close> clause.
\<close>

datatype RegistryOutcome =
    RegistryData json
  | RegistryRejected "nat option" string

type_synonym Registry = "string \<Rightarrow> RegistryOutcome"

definition getProjectConfig :: "string \<Rightarrow> Registry \<Rightarrow> string \<Rightarrow> exn + json" where
  "getProjectConfig registryBase registry bearerToken =
     (case registry (registryBase @ ''/api/projects/'' @ bearerToken) of
        RegistryData d \<Rightarrow>
          (case readProp d ''projectId'' of
             Inl e \<Rightarrow> Inl (Error (''Failed to fetch project config: '' @ message e))
           | Inr i \<Rightarrow>
               if \<not> truthy d
               then Inl (Error (''Failed to fetch project config: ''
                                 @ ''No configuration found for API key''))
               else Inr d)
      | RegistryRejected st m \<Rightarrow>
          if st = Some 404
          then Inl (Error (''Project not found for this API key. ''
                            @ ''Please register the project in VISHKAR settings.''))
          else Inl (Error (''Failed to fetch project config: '' @ m)))"

text \<open>Assignment of a property: an existing key keeps its place, a new one goes last.\<close>

fun setProp :: "(string \<times> json) list \<Rightarrow> string \<Rightarrow> json \<Rightarrow> (string \<times> json) list" where
  "setProp [] k v = [(k, v)]"
| "setProp ((k', v') # kvs) k v = (if k' = k then (k, v) # kvs else (k', v') # setProp kvs k v)"

text \<open>
  \<^verbatim>\<open>handleGenerateStories\<close> of the bearer-token variant (part_000, lines 465--535).  The
  \<^verbatim>\<open>try\<close> block differs from \<open>postToService\<close> in the metadata of the result only, which
  is the spread of the backend's metadata with \<^verbatim>\<open>ai_provider_used\<close> set.
\<close>

definition handleGenerateStoriesBearer ::
  "string \<Rightarrow> Backend \<Rightarrow> string \<Rightarrow> Registry \<Rightarrow> json \<Rightarrow> string \<Rightarrow> HttpCall list \<times> (exn + json)" where
  "handleGenerateStoriesBearer base backend registryBase registry args bearerToken =
     (let project_context = getProp args ''project_context'';
          epics = getProp args ''epics''
      in
      if \<not> truthy project_context \<or> \<not> typeofObject project_context
      then ([], Inl (Error ''project_context is required and must be an object''))
      else if \<not> truthy epics \<or> \<not> isArray epics
      then ([], Inl (Error ''epics is required and must be an array''))
      else
        (let fetch = [Get (registryBase @ ''/api/projects/'' @ bearerToken) 10000] in
         case getProjectConfig registryBase registry bearerToken of
           Inl e \<Rightarrow> (fetch, Inl e)
         | Inr projectConfig \<Rightarrow>
             (case getAIProviderForTask projectConfig StoryGeneration of
                Inl e \<Rightarrow> (fetch, Inl e)
              | Inr aiConfig \<Rightarrow>
                  (case transformProjectContext project_context of
                     Inl e \<Rightarrow> (fetch, Inl e)
                   | Inr t \<Rightarrow>
                       (case postToService base backend ''/generate-stories''
                               (JObj [(''epic'', getProp epics ''0''),
                                      (''consensus_messages'',
                                         JArr (map messageJson (consensus_messages t))),
                                      (''project_metadata'', metadataJson (project_metadata t)),
                                      (''ai_provider'',
                                         JObj [(''provider'', selectedProvider aiConfig),
                                               (''model'', selectedModel aiConfig),
                                               (''api_key'', apiKey aiConfig)])])
                               600000 ''Story generation failed'' ''stories'' of
                          (calls, Inl e) \<Rightarrow> (fetch @ calls, Inl e)
                        | (calls, Inr r) \<Rightarrow>
                            (fetch @ calls,
                             Inr (JObj [(''success'', JBool True),
                                        (''stories'', getProp r ''stories''),
                                        (''metadata'',
                                           JObj (setProp (ownEntries (getProp r ''metadata''))
                                                   ''ai_provider_used''
                                                   (JStr (toStr (selectedProvider aiConfig)
                                                          @ ''/''
                                                          @ toStr (selectedModel aiConfig)))))])))))))"

section \<open>Notions of the specification and example inputs\<close>

text \<open>
  The project context of the end-to-end example, the tool arguments that carry it, and the
  result the example expects of the transformer.
\<close>

definition taskMasterContext :: json where
  "taskMasterContext =
     JObj [(''project_summary'',
              JObj [(''project_name'', JStr ''TaskMaster''), (''platform'', JStr ''Web'')]),
           (''final_decisions'',
              JObj [(''technical'', JObj [(''frontend'', JStr ''React'')])])]"

definition taskMasterArgs :: json where
  "taskMasterArgs = JObj [(''project_context'', taskMasterContext)]"

definition taskMasterTransformed :: Transformed where
  "taskMasterTransformed =
     \<lparr>consensus_messages =
        [\<lparr>role = ''system'',
          content = ''Project: TaskMaster\<newline>\<newline>\<newline>\<newline>Target Users: Not specified\<newline>Platform: Web\<newline>Timeline: Not specified\<newline>Team Size: Not specified''\<rparr>,
         \<lparr>role = ''blake'',
          content = ''Technical Architect Perspective - Architecture & Stack:\<newline>\<newline>Frontend: React''\<rparr>],
      project_metadata =
        \<lparr>project_name = JStr ''TaskMaster'', project_description = JUndefined,
         target_users = JUndefined, platform = JStr ''Web'', timeline = JUndefined,
         team_size = JUndefined\<rparr>\<rparr>"

text \<open>
  A stub backend that never answers: every request times out.
\<close>

definition silentBackend :: Backend where
  "silentBackend u b = NoResponse ''timeout of 60000ms exceeded''"

text \<open>
  A \<^verbatim>\<open>tools/call\<close> request for \<^verbatim>\<open>generate_backlog\<close>, a tool name of the superseded
  two-tool variant that the dispatcher of route.ts does not know.
\<close>

definition unknownToolRequest :: json where
  "unknownToolRequest =
     JObj [(''method'', JStr ''tools/call''),
           (''params'', JObj [(''tool'', JStr ''generate_backlog''), (''arguments'', JObj [])])]"

text \<open>
  The body of the \<^verbatim>\<open>generate-stories\<close> request as the claim describes it: the first
  epic, if there is one, under \<^verbatim>\<open>epic\<close>, then the messages and the metadata.
\<close>

definition storiesBody :: "json list \<Rightarrow> Transformed \<Rightarrow> (string \<times> json) list" where
  "storiesBody es t =
     (case es of [] \<Rightarrow> [] | e # rest \<Rightarrow> [(''epic'', e)])
     @ [(''consensus_messages'', JArr (map messageJson (consensus_messages t))),
        (''project_metadata'', metadataJson (project_metadata t))]"

text \<open>
  A fetched configuration whose AI-provider section has a key and no \<^verbatim>\<open>preferences\<close>.
\<close>

definition noPreferencesConfig :: json where
  "noPreferencesConfig =
     JObj [(''projectId'', JStr ''proj_123''),
           (''projectName'', JStr ''Task Manager App''),
           (''configs'',
              JObj [(''aiProvider'', JObj [(''anthropicApiKey'', JStr ''sk-ant-1'')])])]"

text \<open>
  The resolution of a provider as the specification words it: the AI-provider section of a
  configuration; the preference of the task when one is set, the fixed default pair
  otherwise; the key field that belongs to a provider (none for a provider that is not one
  of the three); and what it means for a key to be unpopulated.
\<close>

definition aiSection :: "json \<Rightarrow> json" where
  "aiSection config = getProp (getProp config ''configs'') ''aiProvider''"

definition defaultPreference :: json where
  "defaultPreference =
     JObj [(''provider'', JStr ''anthropic''), (''model'', JStr ''claude-sonnet-4.5'')]"

definition selectedPreference :: "json \<Rightarrow> Task \<Rightarrow> json" where
  "selectedPreference ai task =
     (if truthy (getProp (getProp ai ''preferences'') (taskKey task))
      then getProp (getProp ai ''preferences'') (taskKey task)
      else defaultPreference)"

definition keyField :: "json \<Rightarrow> json \<Rightarrow> json" where
  "keyField ai p =
     (if p = JStr ''anthropic'' then getProp ai ''anthropicApiKey''
      else if p = JStr ''openai'' then getProp ai ''openaiApiKey''
      else if p = JStr ''openrouter'' then getProp ai ''openrouterApiKey''
      else JUndefined)"

definition unpopulated :: "json \<Rightarrow> bool" where
  "unpopulated k = (\<not> truthy k)"

text \<open>
  Arguments of \<^verbatim>\<open>generate_stories\<close>: with a string for \<^verbatim>\<open>epics\<close>, with no epic,
  with two epics, and with the first of the two alone.
\<close>

definition stringEpicsArgs :: json where
  "stringEpicsArgs = JObj [(''project_context'', taskMasterContext), (''epics'', JStr ''EPIC-1'')]"

definition emptyEpicsArgs :: json where
  "emptyEpicsArgs = JObj [(''project_context'', taskMasterContext), (''epics'', JArr [])]"

definition epicOne :: json where
  "epicOne = JObj [(''id'', JStr ''EPIC-1''), (''title'', JStr ''Accounts'')]"

definition epicTwo :: json where
  "epicTwo = JObj [(''id'', JStr ''EPIC-2''), (''title'', JStr ''Sync'')]"

definition twoEpicsArgs :: json where
  "twoEpicsArgs = JObj [(''project_context'', taskMasterContext), (''epics'', JArr [epicOne, epicTwo])]"

definition oneEpicArgs :: json where
  "oneEpicArgs = JObj [(''project_context'', taskMasterContext), (''epics'', JArr [epicOne])]"

text \<open>
  A stub registry that knows one project, with an Anthropic key and no preference set; a
  project configuration with an Anthropic key, no OpenAI key, an empty OpenRouter key, and a
  preference for story generation only.
\<close>

definition stubConfig :: json where
  "stubConfig =
     JObj [(''projectId'', JStr ''proj_123''),
           (''projectName'', JStr ''Task Manager App''),
           (''configs'',
              JObj [(''aiProvider'',
                       JObj [(''anthropicApiKey'', JStr ''sk-ant-1''),
                             (''preferences'', JObj [])])])]"

definition stubRegistry :: Registry where
  "stubRegistry u = RegistryData stubConfig"

definition anthropicOnlyConfig :: json where
  "anthropicOnlyConfig =
     JObj [(''projectId'', JStr ''proj_123''),
           (''projectName'', JStr ''Task Manager App''),
           (''configs'',
              JObj [(''aiProvider'',
                       JObj [(''anthropicApiKey'', JStr ''sk-ant-1''),
                             (''openrouterApiKey'', JStr []),
                             (''preferences'',
                                JObj [(''storyGeneration'',
                                         JObj [(''provider'', JStr ''openai''),
                                               (''model'', JStr ''gpt-5'')])])])])]"

text \<open>
  The four handlers the dispatcher routes to.
\<close>

definition toolHandlers :: "(string \<Rightarrow> Backend \<Rightarrow> json \<Rightarrow> HttpCall list \<times> (exn + json)) list" where
  "toolHandlers = [handleGenerateEpics, handleGenerateStories, handleRegenerateEpic, handleRegenerateStory]"

text \<open>
  Three stub backends: one that answers every request with HTTP 500 and the body
  \<^verbatim>\<open>{success: false, error: "boom"}\<close>, one that answers with HTTP 200 and that body,
  and one that answers with HTTP 422 and a \<^verbatim>\<open>detail\<close>, as the FastAPI service does.
\<close>

definition boomBackend :: Backend where
  "boomBackend u b =
     Responded 500 ''Internal Server Error''
       (JObj [(''success'', JBool False), (''error'', JStr ''boom'')])"

definition unsuccessfulBackend :: Backend where
  "unsuccessfulBackend u b =
     Responded 200 ''OK'' (JObj [(''success'', JBool False), (''error'', JStr ''boom'')])"

definition refusingBackend :: Backend where
  "refusingBackend u b =
     Responded 422 ''Unprocessable Entity'' (JObj [(''detail'', JStr ''no consensus messages'')])"

text \<open>
  The sections of a project context as the specification names them: the project summary
  and the final decisions under either spelling, and the perspectives of the final
  decisions (absent when there are no final decisions).
\<close>

definition summaryOf :: "json \<Rightarrow> json" where
  "summaryOf pc = jsOr (getProp pc ''project_summary'') (getProp pc ''projectSummary'')"

definition decisionsOf :: "json \<Rightarrow> json" where
  "decisionsOf pc = jsOr (getProp pc ''final_decisions'') (getProp pc ''finalDecisions'')"

definition perspective :: "json \<Rightarrow> string \<Rightarrow> json" where
  "perspective pc k = (if truthy (decisionsOf pc) then getProp (decisionsOf pc) k else JUndefined)"

text \<open>
  The transformer returns, rather than throws, exactly on the contexts that are not
  \<^verbatim>\<open>null\<close> or \<^verbatim>\<open>undefined\<close> and whose product features, if truthy, are an array (the
  list-valued field of the specification).
\<close>

definition featuresOf :: "json \<Rightarrow> json" where
  "featuresOf pc =
     jsOr (getProp (perspective pc ''product'') ''mvp_features'')
          (getProp (perspective pc ''product'') ''mvpFeatures'')"

definition transformAccepts :: "json \<Rightarrow> bool" where
  "transformAccepts pc = (\<not> nullish pc \<and> (truthy (featuresOf pc) \<longrightarrow> isArray (featuresOf pc)))"

text \<open>
  The messages the specification expects, in its fixed order, each left out when its section
  is absent; \<open>alexText\<close> is the text of the product block when that block does not throw.
\<close>

definition alexText :: "json \<Rightarrow> string" where
  "alexText product = (case alexContent product of Inr c \<Rightarrow> c | Inl e \<Rightarrow> [])"


definition expectedMessages :: "json \<Rightarrow> ConsensusMessage list" where
  "expectedMessages pc =
     (if truthy (summaryOf pc)
      then [\<lparr>role = ''system'', content = systemContent (summaryOf pc)\<rparr>] else [])
     @ (if truthy (perspective pc ''product'')
        then [\<lparr>role = ''alex'', content = alexText (perspective pc ''product'')\<rparr>] else [])
     @ (if truthy (perspective pc ''technical'')
        then [\<lparr>role = ''blake'', content = blakeContent (perspective pc ''technical'')\<rparr>] else [])
     @ (if truthy (perspective pc ''project'')
        then [\<lparr>role = ''casey'', content = caseyContent (perspective pc ''project'')\<rparr>] else [])"


definition firstMessageOf :: "exn + Transformed \<Rightarrow> ConsensusMessage option" where
  "firstMessageOf r =
     (case r of
        Inr t \<Rightarrow> (case consensus_messages t of m # ms \<Rightarrow> Some m | [] \<Rightarrow> None)
      | Inl e \<Rightarrow> None)"

definition metadataOf :: "exn + Transformed \<Rightarrow> ProjectMetadata option" where
  "metadataOf r = (case r of Inr t \<Rightarrow> Some (project_metadata t) | Inl e \<Rightarrow> None)"

text \<open>
  The resolution of a field with two spellings as the amended claim words it, and the
  defaulting of the message template.
\<close>

definition preferSnake :: "json \<Rightarrow> string \<Rightarrow> string \<Rightarrow> json" where
  "preferSnake s snake camel =
     (if truthy (getProp s snake) then getProp s snake else getProp s camel)"

definition orDefault :: "json \<Rightarrow> string \<Rightarrow> string" where
  "orDefault v d = (if truthy v then toStr v else d)"


definition bothSpellingsContext :: json where
  "bothSpellingsContext =
     JObj [(''project_summary'',
              JObj [(''project_name'', JStr ''Snake''), (''projectName'', JStr ''Camel''),
                    (''team_size'', JStr ''''), (''teamSize'', JStr ''3'')]),
           (''final_decisions'', JObj [])]"

definition emptySnakeContext :: json where
  "emptySnakeContext =
     JObj [(''project_summary'',
              JObj [(''project_name'', JStr ''''), (''projectName'', JStr ''Camel'')]),
           (''final_decisions'', JObj [])]"

definition messagesOf :: "exn + Transformed \<Rightarrow> ConsensusMessage list" where
  "messagesOf r = (case r of Inr t \<Rightarrow> consensus_messages t | Inl e \<Rightarrow> [])"









text \<open>
  Two values agree on a list of keys when both are truthy or both falsy and they have the
  same value under each key.  The keys the transformer reads of the project summary, of the
  product perspective and of the project perspective.
\<close>

definition agreeOn :: "string list \<Rightarrow> json \<Rightarrow> json \<Rightarrow> bool" where
  "agreeOn ks a b = (truthy a = truthy b \<and> (\<forall>k\<in>set ks. getProp a k = getProp b k))"

definition summaryKeys :: "string list" where
  "summaryKeys =
     [''project_name'', ''projectName'', ''project_description'', ''projectDescription'',
      ''target_users'', ''targetUsers'', ''platform'', ''timeline'', ''team_size'', ''teamSize'']"

definition productKeys :: "string list" where
  "productKeys =
     [''mvp_features'', ''mvpFeatures'', ''target_users'', ''targetUsers'',
      ''development_approach'', ''developmentApproach'']"

definition projectKeys :: "string list" where
  "projectKeys = [''timeline'', ''team'', ''milestones'', ''testing'']"

text \<open>
  All message text of an outcome, and a context with fields the transformer does not read,
  next to the same context without them.
\<close>

definition allText :: "exn + Transformed \<Rightarrow> string" where
  "allText r = concat (map content (messagesOf r))"

definition extraFieldsContext :: json where
  "extraFieldsContext =
     JObj [(''project_summary'',
              JObj [(''project_name'', JStr ''TaskMaster''), (''budget'', JStr ''50k'')]),
           (''final_decisions'',
              JObj [(''product'', JObj [(''risk'', JStr ''high'')]),
                    (''technical'', JObj [(''frontend'', JStr ''React'')]),
                    (''project'', JObj [(''owner'', JStr ''Sam'')])]),
           (''questions_and_answers'', JArr [JStr ''Why offline?''])]"

definition strippedContext :: json where
  "strippedContext =
     JObj [(''project_summary'', JObj [(''project_name'', JStr ''TaskMaster'')]),
           (''final_decisions'',
              JObj [(''product'', JObj []),
                    (''technical'', JObj [(''frontend'', JStr ''React'')]),
                    (''project'', JObj [])])]"

section \<open>Verified properties\<close>

subsection \<open>C1: the end-to-end example\<close>

lemma transform_taskMaster: "transformProjectContext taskMasterContext = Inr taskMasterTransformed"
  by (simp add: taskMasterContext_def taskMasterTransformed_def transformProjectContext_def
      nullish_def jsOr_def getProp_def decisionMessages_def metadata_def systemContent_def
      blakeContent_def objectKeys_def label_def replaceUnderscores_def isWordChar_def
      toUpperChar_def trim_def isSpace_def nl_def)

lemma taskMaster_valid: "truthy taskMasterContext" "typeofObject taskMasterContext"
  by (simp_all add: taskMasterContext_def)

lemma taskMaster_args:
  "getProp taskMasterArgs ''project_context'' = taskMasterContext"
  "truthy (getProp taskMasterContext ''project_summary'')"
  "truthy (getProp taskMasterContext ''final_decisions'')"
  by (simp_all add: taskMasterArgs_def taskMasterContext_def getProp_def)

lemma postToService_fst:
  "fst (postToService base backend path pl t f k) = [Post (base @ path) (wire pl) t]"
  by (simp add: postToService_def)

text \<open>
  C1.  For the project context with summary \<^verbatim>\<open>{project_name: "TaskMaster", platform: "Web"}\<close>
  and decisions \<^verbatim>\<open>{technical: {frontend: "React"}}\<close> the transformer yields exactly two
  messages, the system message and the blake message with the contents below, and metadata
  whose only defined fields are \<^verbatim>\<open>project_name\<close> and \<^verbatim>\<open>platform\<close>; and
  \<^verbatim>\<open>handleGenerateEpics\<close> makes exactly one request, a POST to \<^verbatim>\<open>/generate-epics\<close>
  whose serialised body is exactly these messages and these two metadata fields.
\<close>

theorem C1_end_to_end_example:
  "transformProjectContext taskMasterContext =
     Inr \<lparr>consensus_messages =
            [\<lparr>role = ''system'',
              content = ''Project: TaskMaster\<newline>\<newline>\<newline>\<newline>Target Users: Not specified\<newline>Platform: Web\<newline>Timeline: Not specified\<newline>Team Size: Not specified''\<rparr>,
             \<lparr>role = ''blake'',
              content = ''Technical Architect Perspective - Architecture & Stack:\<newline>\<newline>Frontend: React''\<rparr>],
          project_metadata =
            \<lparr>project_name = JStr ''TaskMaster'', project_description = JUndefined,
             target_users = JUndefined, platform = JStr ''Web'', timeline = JUndefined,
             team_size = JUndefined\<rparr>\<rparr>
   \<and> fst (handleGenerateEpics base backend taskMasterArgs) =
       [Post (base @ ''/generate-epics'')
          (JObj [(''consensus_messages'',
                    JArr [JObj [(''role'', JStr ''system''),
                                (''content'', JStr ''Project: TaskMaster\<newline>\<newline>\<newline>\<newline>Target Users: Not specified\<newline>Platform: Web\<newline>Timeline: Not specified\<newline>Team Size: Not specified'')],
                          JObj [(''role'', JStr ''blake''),
                                (''content'', JStr ''Technical Architect Perspective - Architecture & Stack:\<newline>\<newline>Frontend: React'')]]),
                 (''project_metadata'',
                    JObj [(''project_name'', JStr ''TaskMaster''), (''platform'', JStr ''Web'')])])
          60000]"
proof -
  have "fst (handleGenerateEpics base backend taskMasterArgs) =
      [Post (base @ ''/generate-epics'')
         (wire (JObj [(''consensus_messages'',
                         JArr (map messageJson (consensus_messages taskMasterTransformed))),
                      (''project_metadata'',
                         metadataJson (project_metadata taskMasterTransformed))]))
         60000]"
    by (simp add: handleGenerateEpics_def taskMaster_args taskMaster_valid
        transform_taskMaster postToService_fst del: wire.simps)
  then show ?thesis
    by (simp add: transform_taskMaster taskMasterTransformed_def messageJson_def
        metadataJson_def)
qed

text \<open>C1 against a stub backend at \<^verbatim>\<open>http://stub\<close>.\<close>

theorem C1_end_to_end_example_witness:
  "fst (handleGenerateEpics ''http://stub'' silentBackend taskMasterArgs) =
     [Post ''http://stub/generate-epics''
        (JObj [(''consensus_messages'',
                  JArr [JObj [(''role'', JStr ''system''),
                              (''content'', JStr ''Project: TaskMaster\<newline>\<newline>\<newline>\<newline>Target Users: Not specified\<newline>Platform: Web\<newline>Timeline: Not specified\<newline>Team Size: Not specified'')],
                        JObj [(''role'', JStr ''blake''),
                              (''content'', JStr ''Technical Architect Perspective - Architecture & Stack:\<newline>\<newline>Frontend: React'')]]),
               (''project_metadata'',
                  JObj [(''project_name'', JStr ''TaskMaster''), (''platform'', JStr ''Web'')])])
        60000]"
  using C1_end_to_end_example [of "''http://stub''" silentBackend] by simp

subsection \<open>C4: unknown tool names\<close>

lemma showNat_0: "showNat 0 = ''0''"
  by (simp add: showNat.simps digitChar_def)

lemma getProp_first_Cons: "getProp (JArr (e # rest)) ''0'' = e"
  by (simp add: getProp_def upt_conv_Cons showNat_0 del: upt_Suc)

lemma getProp_first_Nil: "getProp (JArr []) ''0'' = JUndefined"
  by (simp add: getProp_def)

lemma getProp_nullish: "nullish v \<Longrightarrow> getProp v k = JUndefined"
  by (auto simp: nullish_def getProp_def)

text \<open>
  C4, as stated, fails: a \<^verbatim>\<open>tools/call\<close> request naming the unknown tool
  \<^verbatim>\<open>generate_backlog\<close> is answered with status 400, not 200.
\<close>

theorem C4_counterexample:
  "status (snd (POST ''http://stub'' silentBackend (Inr unknownToolRequest))) = 400
   \<and> status (snd (POST ''http://stub'' silentBackend (Inr unknownToolRequest))) \<noteq> 200"
  by (simp add: POST_def unknownToolRequest_def readProp_def nullish_def getProp_def optProp_def jsOr_def)

text \<open>
  C4, amended.  For every \<^verbatim>\<open>tools/call\<close> request whose tool name is none of the four
  known tool names, the dispatcher answers with HTTP status 400 and the body
  \<^verbatim>\<open>{error: {code: -32601, message: "Unknown tool: <name>"}}\<close>; no handler runs, no
  outbound call is made, and the request handler returns normally.
\<close>

theorem C4_unknown_tool_is_status_400:
  assumes "getProp body ''method'' = JStr ''tools/call''"
    and "optProp (getProp body ''params'') ''tool'' \<notin> JStr ` set MCP_TOOL_NAMES"
  shows "POST base backend (Inr body) =
           ([], \<lparr>status = 400,
                 payload = ErrorBody (- 32601)
                   (''Unknown tool: '' @ toStr (optProp (getProp body ''params'') ''tool''))\<rparr>)"
proof -
  have "\<not> nullish body"
    using assms(1) getProp_nullish [of body "''method''"] by auto
  then have r: "readProp body ''method'' = Inr (JStr ''tools/call'')"
    by (simp add: readProp_def assms(1))
  from assms(2) show ?thesis
    by (simp add: POST_def r MCP_TOOL_NAMES_def Let_def)
qed

text \<open>The amended C4 at the request for \<^verbatim>\<open>generate_backlog\<close>.\<close>

theorem C4_unknown_tool_is_status_400_witness:
  "POST ''http://stub'' silentBackend (Inr unknownToolRequest) =
     ([], \<lparr>status = 400, payload = ErrorBody (- 32601) ''Unknown tool: generate_backlog''\<rparr>)"
proof -
  have 1: "getProp unknownToolRequest ''method'' = JStr ''tools/call''"
    by (simp add: unknownToolRequest_def getProp_def)
  have 2: "optProp (getProp unknownToolRequest ''params'') ''tool'' = JStr ''generate_backlog''"
    by (simp add: unknownToolRequest_def getProp_def optProp_def nullish_def)
  have 3: "optProp (getProp unknownToolRequest ''params'') ''tool'' \<notin> JStr ` set MCP_TOOL_NAMES"
    by (simp add: 2 MCP_TOOL_NAMES_def)
  show ?thesis
    using C4_unknown_tool_is_status_400 [OF 1 3, of "''http://stub''" silentBackend] by (simp add: 2)
qed

subsection \<open>C9: the validation of epics\<close>

lemma postToService_error_message:
  "snd (postToService base backend path pl t f k) = Inl e \<Longrightarrow>
     \<exists>m. e = Error (''Request error: '' @ m) \<or> e = Error (''StoryCrafter service '' @ m)"
  by (auto simp: postToService_def split: AxiosOutcome.splits if_splits sum.splits)

text \<open>
  C9.  A \<^verbatim>\<open>generate_stories\<close> call whose \<^verbatim>\<open>epics\<close> argument is not an array makes
  no outbound call and fails with a validation error; the error is
  \<^verbatim>\<open>epics is required and must be an array\<close> whenever \<^verbatim>\<open>project_context\<close> is an
  object (otherwise the earlier check of \<^verbatim>\<open>project_context\<close> reports that field).  An
  empty array passes the check of \<^verbatim>\<open>epics\<close>: the handler does not fail with that error,
  and once the transformer has returned it makes its one outbound call.
\<close>

theorem C9_epics_must_be_array:
  assumes "getProp args ''project_context'' = pc" and "getProp args ''epics'' = epics"
  shows "(\<not> isArray epics \<longrightarrow>
            fst (handleGenerateStories base backend args) = []
          \<and> (truthy pc \<and> typeofObject pc \<longrightarrow>
                snd (handleGenerateStories base backend args) =
                  Inl (Error ''epics is required and must be an array''))
          \<and> (\<not> (truthy pc \<and> typeofObject pc) \<longrightarrow>
                snd (handleGenerateStories base backend args) =
                  Inl (Error ''project_context is required and must be an object'')))
       \<and> (epics = JArr [] \<and> truthy pc \<and> typeofObject pc \<longrightarrow>
            snd (handleGenerateStories base backend args) \<noteq>
              Inl (Error ''epics is required and must be an array'')
          \<and> (\<forall>t. transformProjectContext pc = Inr t \<longrightarrow>
                length (fst (handleGenerateStories base backend args)) = 1))"
proof -
  have a: "\<not> isArray epics \<Longrightarrow> fst (handleGenerateStories base backend args) = []"
    by (simp add: handleGenerateStories_def assms Let_def)
  have b: "\<not> isArray epics \<Longrightarrow> truthy pc \<and> typeofObject pc \<Longrightarrow>
      snd (handleGenerateStories base backend args) =
        Inl (Error ''epics is required and must be an array'')"
    by (simp add: handleGenerateStories_def assms Let_def)
  have c: "\<not> (truthy pc \<and> typeofObject pc) \<Longrightarrow>
      snd (handleGenerateStories base backend args) =
        Inl (Error ''project_context is required and must be an object'')"
    by (auto simp add: handleGenerateStories_def assms Let_def)
  have d: "snd (handleGenerateStories base backend args) \<noteq>
              Inl (Error ''epics is required and must be an array'')"
    if h: "epics = JArr []" "truthy pc" "typeofObject pc"
  proof (cases "transformProjectContext pc")
    case (Inl e)
    then have "snd (handleGenerateStories base backend args) = Inl e"
      using h by (simp add: handleGenerateStories_def assms Let_def)
    moreover have "\<exists>m. e = TypeError m"
      using Inl
      by (auto simp: transformProjectContext_def cannotRead_def decisionMessages_def
          alexContent_def Let_def split: if_splits sum.splits json.splits)
    ultimately show ?thesis by auto
  next
    case (Inr t)
    then have eq: "handleGenerateStories base backend args =
        postToService base backend ''/generate-stories''
          (JObj [(''epic'', getProp epics ''0''),
                 (''consensus_messages'', JArr (map messageJson (consensus_messages t))),
                 (''project_metadata'', metadataJson (project_metadata t))])
          600000 ''Story generation failed'' ''stories''"
      using h by (simp add: handleGenerateStories_def assms Let_def)
    show ?thesis
    proof
      assume "snd (handleGenerateStories base backend args) =
              Inl (Error ''epics is required and must be an array'')"
      from postToService_error_message [OF this [unfolded eq]] show False by auto
    qed
  qed
  have e: "length (fst (handleGenerateStories base backend args)) = 1"
    if h: "epics = JArr []" "truthy pc" "typeofObject pc" "transformProjectContext pc = Inr t" for t
    using h by (simp add: handleGenerateStories_def assms Let_def postToService_fst)
  from a b c d e show ?thesis by blast
qed

subsection \<open>C3: only the first epic is forwarded\<close>

lemma getProp_first: "getProp (JArr es) ''0'' = (case es of [] \<Rightarrow> JUndefined | e # rest \<Rightarrow> e)"
  by (cases es) (simp_all add: getProp_first_Cons getProp_first_Nil)

lemma getProp_first_take: "getProp (JArr (take (Suc 0) es)) ''0'' = getProp (JArr es) ''0''"
  by (cases es) (simp_all add: getProp_first)

lemma getProp_first_take1: "getProp (JArr (take 1 es)) ''0'' = getProp (JArr es) ''0''"
  by (cases es) (simp_all add: getProp_first)

text \<open>
  C3.  For a \<^verbatim>\<open>generate_stories\<close> call that passes validation (and whose context the
  transformer accepts), the body posted to the backend carries under \<^verbatim>\<open>epic\<close> the
  first element of \<^verbatim>\<open>epics\<close> and nothing of the others; with an empty array the
  serialised body has no \<^verbatim>\<open>epic\<close> key.  Replacing \<^verbatim>\<open>epics\<close> by its first element
  alone changes neither the outbound calls nor the result.  This holds for the handler of
  route.ts and for the one of the bearer-token variant, whose body has the additional
  \<^verbatim>\<open>ai_provider\<close> entry.
\<close>

theorem C3_only_first_epic_forwarded:
  assumes "getProp args ''project_context'' = pc" and "truthy pc" and "typeofObject pc"
    and "getProp args ''epics'' = JArr es"
    and "transformProjectContext pc = Inr t"
  shows "fst (handleGenerateStories base backend args) =
           [Post (base @ ''/generate-stories'') (wire (JObj (storiesBody es t))) 600000]
       \<and> (\<forall>args'. getProp args' ''project_context'' = pc
                  \<and> getProp args' ''epics'' = JArr (take 1 es) \<longrightarrow>
             handleGenerateStories base backend args' = handleGenerateStories base backend args
           \<and> handleGenerateStoriesBearer base backend registryBase registry args' token =
               handleGenerateStoriesBearer base backend registryBase registry args token)
       \<and> (\<forall>config ai.
             getProjectConfig registryBase registry token = Inr config
           \<and> getAIProviderForTask config StoryGeneration = Inr ai \<longrightarrow>
             fst (handleGenerateStoriesBearer base backend registryBase registry args token) =
               [Get (registryBase @ ''/api/projects/'' @ token) 10000,
                Post (base @ ''/generate-stories'')
                  (wire (JObj (storiesBody es t
                     @ [(''ai_provider'',
                          JObj [(''provider'', selectedProvider ai),
                                (''model'', selectedModel ai),
                                (''api_key'', apiKey ai)])])))
                  600000])"
proof -
  have 1: "fst (handleGenerateStories base backend args) =
           [Post (base @ ''/generate-stories'') (wire (JObj (storiesBody es t))) 600000]"
    using assms
    by (cases es)
      (simp_all add: handleGenerateStories_def Let_def postToService_fst getProp_first
        storiesBody_def)
  have 2: "handleGenerateStories base backend args' = handleGenerateStories base backend args"
    if "getProp args' ''project_context'' = pc" "getProp args' ''epics'' = JArr (take 1 es)"
    for args'
    using that assms by (simp add: handleGenerateStories_def Let_def getProp_first_take)
  have 3: "handleGenerateStoriesBearer base backend registryBase registry args' token =
           handleGenerateStoriesBearer base backend registryBase registry args token"
    if "getProp args' ''project_context'' = pc" "getProp args' ''epics'' = JArr (take 1 es)"
    for args'
    unfolding handleGenerateStoriesBearer_def Let_def that assms(1,4) getProp_first_take1
    by simp
  have 4: "fst (handleGenerateStoriesBearer base backend registryBase registry args token) =
               [Get (registryBase @ ''/api/projects/'' @ token) 10000,
                Post (base @ ''/generate-stories'')
                  (wire (JObj (storiesBody es t
                     @ [(''ai_provider'',
                          JObj [(''provider'', selectedProvider ai),
                                (''model'', selectedModel ai),
                                (''api_key'', apiKey ai)])])))
                  600000]"
    if c: "getProjectConfig registryBase registry token = Inr config"
       "getAIProviderForTask config StoryGeneration = Inr ai" for config ai
  proof -
    obtain calls r where p: "postToService base backend ''/generate-stories''
           (JObj [(''epic'', getProp (JArr es) ''0''),
                  (''consensus_messages'', JArr (map messageJson (consensus_messages t))),
                  (''project_metadata'', metadataJson (project_metadata t)),
                  (''ai_provider'',
                     JObj [(''provider'', selectedProvider ai),
                           (''model'', selectedModel ai),
                           (''api_key'', apiKey ai)])])
           600000 ''Story generation failed'' ''stories'' = (calls, r)"
      by (cases "postToService base backend ''/generate-stories''
           (JObj [(''epic'', getProp (JArr es) ''0''),
                  (''consensus_messages'', JArr (map messageJson (consensus_messages t))),
                  (''project_metadata'', metadataJson (project_metadata t)),
                  (''ai_provider'',
                     JObj [(''provider'', selectedProvider ai),
                           (''model'', selectedModel ai),
                           (''api_key'', apiKey ai)])])
           600000 ''Story generation failed'' ''stories''") blast
    from arg_cong [OF p, of fst]
    have calls: "calls = [Post (base @ ''/generate-stories'')
           (wire (JObj [(''epic'', getProp (JArr es) ''0''),
                  (''consensus_messages'', JArr (map messageJson (consensus_messages t))),
                  (''project_metadata'', metadataJson (project_metadata t)),
                  (''ai_provider'',
                     JObj [(''provider'', selectedProvider ai),
                           (''model'', selectedModel ai),
                           (''api_key'', apiKey ai)])])) 600000]"
      by (simp only: postToService_fst fst_conv)
    have w: "wire (JObj [(''epic'', getProp (JArr es) ''0''),
                  (''consensus_messages'', JArr (map messageJson (consensus_messages t))),
                  (''project_metadata'', metadataJson (project_metadata t)),
                  (''ai_provider'',
                     JObj [(''provider'', selectedProvider ai),
                           (''model'', selectedModel ai),
                           (''api_key'', apiKey ai)])]) =
             wire (JObj (storiesBody es t
                     @ [(''ai_provider'',
                          JObj [(''provider'', selectedProvider ai),
                                (''model'', selectedModel ai),
                                (''api_key'', apiKey ai)])]))"
      by (cases es) (simp_all add: getProp_first storiesBody_def)
    have "fst (handleGenerateStoriesBearer base backend registryBase registry args token) =
            Get (registryBase @ ''/api/projects/'' @ token) 10000 # calls"
      using assms(2,3)
      by (cases r) (simp_all add: handleGenerateStoriesBearer_def Let_def assms(1,4,5) c p)
    then show ?thesis by (simp only: calls w)
  qed
  from 1 2 3 4 show ?thesis by blast
qed

subsection \<open>C10: the provider of a task\<close>

lemma getProp_truthy_receiver: "truthy (getProp v k) \<Longrightarrow> \<not> nullish v"
  by (auto simp: nullish_def getProp_def)

lemma resolve_with_preferences:
  assumes "aiSection config = ai" and "truthy ai" and "\<not> nullish (getProp ai ''preferences'')"
  shows "getAIProviderForTask config task =
           (if \<not> truthy (keyField ai (getProp (selectedPreference ai task) ''provider''))
            then Inl (Error (''API key not found for provider: ''
                              @ toStr (getProp (selectedPreference ai task) ''provider'')))
            else Inr \<lparr>selectedProvider = getProp (selectedPreference ai task) ''provider'',
                      selectedModel = getProp (selectedPreference ai task) ''model'',
                      apiKey = keyField ai (getProp (selectedPreference ai task) ''provider'')\<rparr>)"
proof -
  from assms(1,2) have a: "truthy (getProp (getProp config ''configs'') ''aiProvider'')"
    by (simp add: aiSection_def)
  from getProp_truthy_receiver [OF a] have c: "\<not> nullish (getProp config ''configs'')" .
  have n: "\<not> nullish config"
  proof
    assume "nullish config"
    then have "getProp config ''configs'' = JUndefined"
      by (rule getProp_nullish)
    with c show False by (simp add: nullish_def)
  qed
  have 1: "readProp config ''configs'' = Inr (getProp config ''configs'')"
    using n by (simp add: readProp_def)
  have 2: "readProp (getProp config ''configs'') ''aiProvider'' = Inr ai"
    using c assms(1) by (simp add: readProp_def aiSection_def)
  have 3: "readProp (getProp ai ''preferences'') (taskKey task) =
             Inr (getProp (getProp ai ''preferences'') (taskKey task))"
    using assms(3) by (simp add: readProp_def)
  have 4: "jsOr (getProp (getProp ai ''preferences'') (taskKey task))
             (JObj [(''provider'', JStr ''anthropic''), (''model'', JStr ''claude-sonnet-4.5'')]) =
           selectedPreference ai task"
    by (simp add: jsOr_def selectedPreference_def defaultPreference_def)
  show ?thesis
    using assms(2)
    by (simp add: getAIProviderForTask_def 1 2 3 4 Let_def keyField_def)
qed

text \<open>
  C10, as stated, fails: a fetched configuration whose AI-provider section has an Anthropic
  key and no \<^verbatim>\<open>preferences\<close> makes the resolver throw a \<^verbatim>\<open>TypeError\<close>; it neither
  falls back to the default pair nor returns the populated key.
\<close>

theorem C10_counterexample:
  "truthy (aiSection noPreferencesConfig)
   \<and> truthy (getProp (aiSection noPreferencesConfig) ''anthropicApiKey'')
   \<and> getAIProviderForTask noPreferencesConfig EpicGeneration =
       Inl (cannotRead JUndefined ''epicGeneration'')
   \<and> getAIProviderForTask noPreferencesConfig EpicGeneration \<noteq>
       Inr \<lparr>selectedProvider = JStr ''anthropic'', selectedModel = JStr ''claude-sonnet-4.5'',
            apiKey = JStr ''sk-ant-1''\<rparr>"
  by (simp add: noPreferencesConfig_def aiSection_def getAIProviderForTask_def readProp_def
      nullish_def getProp_def)

text \<open>
  C10, amended.  For every fetched project configuration whose AI-provider section is present
  and has a \<^verbatim>\<open>preferences\<close> record, and every task: the resolver selects the preference
  of the task when one is set and the pair (\<^verbatim>\<open>anthropic\<close>, \<^verbatim>\<open>claude-sonnet-4.5\<close>)
  otherwise.  It fails with \<^verbatim>\<open>API key not found for provider: ...\<close> exactly when the key
  field of the selected provider is unpopulated (missing or falsy, as it is for a provider
  that is none of \<^verbatim>\<open>anthropic\<close>, \<^verbatim>\<open>openai\<close>, \<^verbatim>\<open>openrouter\<close>), and otherwise returns
  that provider, its model and the key.
\<close>

theorem C10_provider_resolution:
  assumes "aiSection config = ai" and "truthy ai" and "\<not> nullish (getProp ai ''preferences'')"
  shows "(unpopulated (keyField ai (getProp (selectedPreference ai task) ''provider'')) \<longleftrightarrow>
            getAIProviderForTask config task =
              Inl (Error (''API key not found for provider: ''
                           @ toStr (getProp (selectedPreference ai task) ''provider''))))
       \<and> (\<not> unpopulated (keyField ai (getProp (selectedPreference ai task) ''provider'')) \<longrightarrow>
             getAIProviderForTask config task =
               Inr \<lparr>selectedProvider = getProp (selectedPreference ai task) ''provider'',
                    selectedModel = getProp (selectedPreference ai task) ''model'',
                    apiKey = keyField ai (getProp (selectedPreference ai task) ''provider'')\<rparr>)"
  unfolding resolve_with_preferences [OF assms] unpopulated_def
  by simp

subsection \<open>Instances of C9, C3 and C10\<close>

text \<open>
  C9 at a call whose \<^verbatim>\<open>epics\<close> is the string \<^verbatim>\<open>"EPIC-1"\<close>, and at one whose
  \<^verbatim>\<open>epics\<close> is the empty array.
\<close>

theorem C9_epics_must_be_array_witness:
  "fst (handleGenerateStories ''http://stub'' silentBackend stringEpicsArgs) = []
   \<and> snd (handleGenerateStories ''http://stub'' silentBackend stringEpicsArgs) =
       Inl (Error ''epics is required and must be an array'')
   \<and> snd (handleGenerateStories ''http://stub'' silentBackend emptyEpicsArgs) \<noteq>
       Inl (Error ''epics is required and must be an array'')
   \<and> length (fst (handleGenerateStories ''http://stub'' silentBackend emptyEpicsArgs)) = 1"
proof -
  have 1: "getProp stringEpicsArgs ''project_context'' = taskMasterContext"
    by (simp add: stringEpicsArgs_def getProp_def)
  have 2: "getProp stringEpicsArgs ''epics'' = JStr ''EPIC-1''"
    by (simp add: stringEpicsArgs_def getProp_def)
  have 3: "getProp emptyEpicsArgs ''project_context'' = taskMasterContext"
    by (simp add: emptyEpicsArgs_def getProp_def)
  have 4: "getProp emptyEpicsArgs ''epics'' = JArr []"
    by (simp add: emptyEpicsArgs_def getProp_def)
  show ?thesis
    using C9_epics_must_be_array [OF 1 2, of "''http://stub''" silentBackend]
      C9_epics_must_be_array [OF 3 4, of "''http://stub''" silentBackend]
      taskMaster_valid transform_taskMaster
    by simp
qed

text \<open>C3 at a call with two epics.\<close>

theorem C3_only_first_epic_forwarded_witness:
  "fst (handleGenerateStories ''http://stub'' silentBackend twoEpicsArgs) =
     [Post ''http://stub/generate-stories''
        (wire (JObj (storiesBody [epicOne, epicTwo] taskMasterTransformed))) 600000]
   \<and> handleGenerateStories ''http://stub'' silentBackend oneEpicArgs =
       handleGenerateStories ''http://stub'' silentBackend twoEpicsArgs
   \<and> handleGenerateStoriesBearer ''http://stub'' silentBackend ''http://registry'' stubRegistry
         oneEpicArgs ''prom_abc'' =
       handleGenerateStoriesBearer ''http://stub'' silentBackend ''http://registry'' stubRegistry
         twoEpicsArgs ''prom_abc''
   \<and> fst (handleGenerateStoriesBearer ''http://stub'' silentBackend ''http://registry''
           stubRegistry twoEpicsArgs ''prom_abc'') =
       [Get ''http://registry/api/projects/prom_abc'' 10000,
        Post ''http://stub/generate-stories''
          (wire (JObj (storiesBody [epicOne, epicTwo] taskMasterTransformed
             @ [(''ai_provider'',
                  JObj [(''provider'', JStr ''anthropic''),
                        (''model'', JStr ''claude-sonnet-4.5''),
                        (''api_key'', JStr ''sk-ant-1'')])])))
          600000]"
proof -
  let ?ai = "\<lparr>selectedProvider = JStr ''anthropic'',
              selectedModel = JStr ''claude-sonnet-4.5'', apiKey = JStr ''sk-ant-1''\<rparr>"
  have 1: "getProp twoEpicsArgs ''project_context'' = taskMasterContext"
    by (simp add: twoEpicsArgs_def getProp_def)
  have 2: "getProp twoEpicsArgs ''epics'' = JArr [epicOne, epicTwo]"
    by (simp add: twoEpicsArgs_def getProp_def)
  have 3: "getProp oneEpicArgs ''project_context'' = taskMasterContext"
    by (simp add: oneEpicArgs_def getProp_def)
  have 4: "getProp oneEpicArgs ''epics'' = JArr (take 1 [epicOne, epicTwo])"
    by (simp add: oneEpicArgs_def getProp_def)
  have 5: "getProjectConfig ''http://registry'' stubRegistry ''prom_abc'' = Inr stubConfig"
    by (simp add: getProjectConfig_def stubRegistry_def stubConfig_def readProp_def
        nullish_def)
  have 6: "getAIProviderForTask stubConfig StoryGeneration = Inr ?ai"
    by (simp add: getAIProviderForTask_def stubConfig_def readProp_def nullish_def
        getProp_def jsOr_def)
  note c3 = C3_only_first_epic_forwarded [OF 1 taskMaster_valid 2 transform_taskMaster,
      of "''http://stub''" silentBackend "''http://registry''" stubRegistry "''prom_abc''"]
  have a: "fst (handleGenerateStories ''http://stub'' silentBackend twoEpicsArgs) =
     [Post ''http://stub/generate-stories''
        (wire (JObj (storiesBody [epicOne, epicTwo] taskMasterTransformed))) 600000]"
    using c3 by simp
  have b: "handleGenerateStories ''http://stub'' silentBackend oneEpicArgs =
       handleGenerateStories ''http://stub'' silentBackend twoEpicsArgs"
    "handleGenerateStoriesBearer ''http://stub'' silentBackend ''http://registry'' stubRegistry
         oneEpicArgs ''prom_abc'' =
       handleGenerateStoriesBearer ''http://stub'' silentBackend ''http://registry'' stubRegistry
         twoEpicsArgs ''prom_abc''"
    using c3 3 4 by blast+
  have c: "fst (handleGenerateStoriesBearer ''http://stub'' silentBackend ''http://registry''
           stubRegistry twoEpicsArgs ''prom_abc'') =
       [Get (''http://registry'' @ ''/api/projects/'' @ ''prom_abc'') 10000,
        Post (''http://stub'' @ ''/generate-stories'')
          (wire (JObj (storiesBody [epicOne, epicTwo] taskMasterTransformed
             @ [(''ai_provider'',
                  JObj [(''provider'', selectedProvider ?ai),
                        (''model'', selectedModel ?ai),
                        (''api_key'', apiKey ?ai)])])))
          600000]"
    using c3 5 6 by blast
  from a b c show ?thesis
    by (simp del: wire.simps)
qed

text \<open>
  The amended C10 at a configuration with an Anthropic key only: epic generation falls back
  to the default pair, story generation prefers OpenAI and fails for want of its key.
\<close>

theorem C10_provider_resolution_witness:
  "getAIProviderForTask anthropicOnlyConfig EpicGeneration =
     Inr \<lparr>selectedProvider = JStr ''anthropic'', selectedModel = JStr ''claude-sonnet-4.5'',
          apiKey = JStr ''sk-ant-1''\<rparr>
   \<and> getAIProviderForTask anthropicOnlyConfig StoryGeneration =
       Inl (Error ''API key not found for provider: openai'')"
proof -
  let ?ai = "JObj [(''anthropicApiKey'', JStr ''sk-ant-1''),
                   (''openrouterApiKey'', JStr []),
                   (''preferences'',
                      JObj [(''storyGeneration'',
                               JObj [(''provider'', JStr ''openai''),
                                     (''model'', JStr ''gpt-5'')])])]"
  let ?story = "JObj [(''provider'', JStr ''openai''), (''model'', JStr ''gpt-5'')]"
  have 1: "aiSection anthropicOnlyConfig = ?ai"
    by (simp add: anthropicOnlyConfig_def aiSection_def getProp_def)
  have 2: "truthy ?ai"
    by simp
  have 3: "\<not> nullish (getProp ?ai ''preferences'')"
    by (simp add: nullish_def getProp_def)
  have e: "selectedPreference ?ai EpicGeneration = defaultPreference"
    by (simp add: selectedPreference_def getProp_def)
  have s: "selectedPreference ?ai StoryGeneration = ?story"
    by (simp add: selectedPreference_def getProp_def)
  have ke: "getProp defaultPreference ''provider'' = JStr ''anthropic''"
    "getProp defaultPreference ''model'' = JStr ''claude-sonnet-4.5''"
    "keyField ?ai (JStr ''anthropic'') = JStr ''sk-ant-1''"
    by (simp_all add: keyField_def defaultPreference_def getProp_def)
  have ks: "getProp ?story ''provider'' = JStr ''openai''"
    "keyField ?ai (JStr ''openai'') = JUndefined"
    by (simp_all add: keyField_def getProp_def)
  have a: "getAIProviderForTask anthropicOnlyConfig EpicGeneration =
     Inr \<lparr>selectedProvider = JStr ''anthropic'', selectedModel = JStr ''claude-sonnet-4.5'',
          apiKey = JStr ''sk-ant-1''\<rparr>"
    using C10_provider_resolution [OF 1 2 3, of EpicGeneration]
    unfolding e ke unpopulated_def by simp
  have b: "getAIProviderForTask anthropicOnlyConfig StoryGeneration =
       Inl (Error ''API key not found for provider: openai'')"
    using C10_provider_resolution [OF 1 2 3, of StoryGeneration]
    unfolding s ks unpopulated_def by simp
  from a b show ?thesis by simp
qed

subsection \<open>C2: the classes of backend failures\<close>

lemma handler_is_post:
  assumes "h \<in> set toolHandlers" and "fst (h base backend args) = [Post u b t]"
  shows "\<exists>path pl f k. h base backend args = postToService base backend path pl t f k
                      \<and> u = base @ path \<and> b = wire pl"
proof -
  have ge: "fst (handleGenerateEpics base backend args) = [Post u b t] \<Longrightarrow>
      \<exists>path pl f k. handleGenerateEpics base backend args = postToService base backend path pl t f k
                      \<and> u = base @ path \<and> b = wire pl"
    unfolding handleGenerateEpics_def Let_def
    by (fastforce split: if_splits sum.splits simp: postToService_fst simp del: wire.simps)
  have gs: "fst (handleGenerateStories base backend args) = [Post u b t] \<Longrightarrow>
      \<exists>path pl f k. handleGenerateStories base backend args = postToService base backend path pl t f k
                      \<and> u = base @ path \<and> b = wire pl"
    unfolding handleGenerateStories_def Let_def
    by (fastforce split: if_splits sum.splits simp: postToService_fst simp del: wire.simps)
  have re: "fst (handleRegenerateEpic base backend args) = [Post u b t] \<Longrightarrow>
      \<exists>path pl f k. handleRegenerateEpic base backend args = postToService base backend path pl t f k
                      \<and> u = base @ path \<and> b = wire pl"
    unfolding handleRegenerateEpic_def Let_def
    by (fastforce split: if_splits sum.splits simp: postToService_fst simp del: wire.simps)
  have rs: "fst (handleRegenerateStory base backend args) = [Post u b t] \<Longrightarrow>
      \<exists>path pl f k. handleRegenerateStory base backend args = postToService base backend path pl t f k
                      \<and> u = base @ path \<and> b = wire pl"
    unfolding handleRegenerateStory_def Let_def
    by (fastforce split: if_splits sum.splits simp: postToService_fst simp del: wire.simps)
  from assms ge gs re rs show ?thesis
    by (auto simp: toolHandlers_def)
qed

lemma postToService_rejected:
  "backend (base @ path) (wire pl) = Responded st tx d \<Longrightarrow> \<not> (200 \<le> st \<and> st < 300) \<Longrightarrow>
   snd (postToService base backend path pl t f k) =
     Inl (Error (''StoryCrafter service error: '' @ toStr (jsOr (optProp d ''detail'') (JStr tx))))"
  by (auto simp: postToService_def)

lemma postToService_unsuccessful:
  "backend (base @ path) (wire pl) = Responded st tx d \<Longrightarrow> 200 \<le> st \<and> st < 300 \<Longrightarrow>
   \<not> nullish d \<Longrightarrow> \<not> truthy (getProp d ''success'') \<Longrightarrow> truthy (getProp d ''error'') \<Longrightarrow>
   snd (postToService base backend path pl t f k) =
     Inl (Error (''Request error: '' @ toStr (getProp d ''error'')))"
  by (simp add: postToService_def readProp_def jsOr_def)

lemma postToService_unavailable:
  "backend (base @ path) (wire pl) = NoResponse m \<Longrightarrow>
   snd (postToService base backend path pl t f k) =
     Inl (Error (''StoryCrafter service unavailable: '' @ base))"
  by (simp add: postToService_def)

text \<open>
  C2, as stated, fails: when the backend answers HTTP 500 with the body
  \<^verbatim>\<open>{success: false, error: "boom"}\<close>, the error message is built from the status text
  and does not contain \<^verbatim>\<open>boom\<close>.
\<close>

theorem C2_counterexample:
  "snd (handleGenerateEpics ''http://stub'' boomBackend taskMasterArgs) =
     Inl (Error ''StoryCrafter service error: Internal Server Error'')
   \<and> \<not> sublist ''boom'' ''StoryCrafter service error: Internal Server Error''"
proof -
  have p: "getProp taskMasterArgs ''project_context'' = taskMasterContext"
    by (simp add: taskMasterArgs_def getProp_def)
  have v: "truthy (getProp taskMasterContext ''project_summary'')"
      "truthy (getProp taskMasterContext ''final_decisions'')"
    by (simp_all add: taskMasterContext_def getProp_def)
  have "handleGenerateEpics ''http://stub'' boomBackend taskMasterArgs =
      postToService ''http://stub'' boomBackend ''/generate-epics''
        (JObj [(''consensus_messages'',
                  JArr (map messageJson (consensus_messages taskMasterTransformed))),
               (''project_metadata'', metadataJson (project_metadata taskMasterTransformed))])
        60000 ''Epic generation failed'' ''epics''"
    by (simp add: handleGenerateEpics_def p v taskMaster_valid transform_taskMaster)
  then have "snd (handleGenerateEpics ''http://stub'' boomBackend taskMasterArgs) =
     Inl (Error ''StoryCrafter service error: Internal Server Error'')"
    by (simp add: postToService_def boomBackend_def optProp_def nullish_def getProp_def
        jsOr_def)
  moreover have "\<not> sublist ''boom'' ''StoryCrafter service error: Internal Server Error''"
    by (simp add: sublist_code)
  ultimately show ?thesis by simp
qed

text \<open>
  C2, amended.  For each of the four handlers and every backend call it makes: if the backend
  answers with a status outside \<open>200..299\<close>, the handler fails with the message
  \<^verbatim>\<open>StoryCrafter service error: \<close> followed by the \<^verbatim>\<open>detail\<close> field of the body when
  that is truthy and by the HTTP status text otherwise (the \<^verbatim>\<open>error\<close> field of such a
  body is not consulted); if the backend answers with a status in \<open>200..299\<close> and a body
  whose \<^verbatim>\<open>success\<close> is falsy and whose \<^verbatim>\<open>error\<close> is truthy, the handler fails with a
  message that ends with that error text; if no response arrives, the handler fails with
  \<^verbatim>\<open>StoryCrafter service unavailable: \<close> followed by the configured base URL; and a
  failure of the first kind never has the message of a failure of the third kind.
\<close>

theorem C2_failure_classes:
  assumes "h \<in> set toolHandlers" and "fst (h base backend args) = [Post u b t]"
  shows "(\<forall>st tx d. backend u b = Responded st tx d \<and> \<not> (200 \<le> st \<and> st < 300) \<longrightarrow>
            snd (h base backend args) =
              Inl (Error (''StoryCrafter service error: ''
                           @ toStr (jsOr (optProp d ''detail'') (JStr tx)))))
       \<and> (\<forall>st tx d. backend u b = Responded st tx d \<and> 200 \<le> st \<and> st < 300 \<and> \<not> nullish d
               \<and> \<not> truthy (getProp d ''success'') \<and> truthy (getProp d ''error'') \<longrightarrow>
            (\<exists>p. snd (h base backend args) = Inl (Error (p @ toStr (getProp d ''error'')))))
       \<and> (\<forall>m. backend u b = NoResponse m \<longrightarrow>
            snd (h base backend args) =
              Inl (Error (''StoryCrafter service unavailable: '' @ base)))
       \<and> (\<forall>h' base' backend' args' u' b' t' st tx d m.
            h' \<in> set toolHandlers \<and> fst (h' base' backend' args') = [Post u' b' t']
            \<and> backend u b = Responded st tx d \<and> \<not> (200 \<le> st \<and> st < 300)
            \<and> backend' u' b' = NoResponse m \<longrightarrow>
            snd (h base backend args) \<noteq> snd (h' base' backend' args'))"
proof -
  from handler_is_post [OF assms] obtain path pl f k where
    h: "h base backend args = postToService base backend path pl t f k"
    and u: "u = base @ path" and b: "b = wire pl"
    by blast
  have 1: "snd (h base backend args) =
              Inl (Error (''StoryCrafter service error: ''
                           @ toStr (jsOr (optProp d ''detail'') (JStr tx))))"
    if "backend u b = Responded st tx d" "\<not> (200 \<le> st \<and> st < 300)" for st tx d
    using that postToService_rejected [of backend base path pl st tx d t f k]
    by (simp add: h u b)
  have 2: "\<exists>p. snd (h base backend args) = Inl (Error (p @ toStr (getProp d ''error'')))"
    if "backend u b = Responded st tx d" "200 \<le> st \<and> st < 300" "\<not> nullish d"
      "\<not> truthy (getProp d ''success'')" "truthy (getProp d ''error'')" for st tx d
    using that postToService_unsuccessful [of backend base path pl st tx d t f k]
    by (auto simp: h u b)
  have 3: "snd (h base backend args) =
              Inl (Error (''StoryCrafter service unavailable: '' @ base))"
    if "backend u b = NoResponse m" for m
    using that postToService_unavailable [of backend base path pl m t f k]
    by (simp add: h u b)
  have 4: "snd (h base backend args) \<noteq> snd (h' base' backend' args')"
    if a: "h' \<in> set toolHandlers" "fst (h' base' backend' args') = [Post u' b' t']"
      and r: "backend u b = Responded st tx d" "\<not> (200 \<le> st \<and> st < 300)"
      and n: "backend' u' b' = NoResponse m"
    for h' base' backend' args' u' b' t' st tx d m
  proof -
    from handler_is_post [OF a] obtain path' pl' f' k' where
      h': "h' base' backend' args' = postToService base' backend' path' pl' t' f' k'"
      and u': "u' = base' @ path'" and b': "b' = wire pl'"
      by blast
    have "snd (h' base' backend' args') =
            Inl (Error (''StoryCrafter service unavailable: '' @ base'))"
      using n postToService_unavailable [of backend' base' path' pl' m t' f' k']
      by (simp add: h' u' b')
    with 1 [OF r] show ?thesis by simp
  qed
  from 1 2 3 4 show ?thesis by blast
qed

text \<open>
  The amended C2 at a backend that answers 422 with a \<^verbatim>\<open>detail\<close>, at one that
  answers 200 with \<^verbatim>\<open>success: false\<close>, and at one that never answers.
\<close>

theorem C2_failure_classes_witness:
  "snd (handleGenerateEpics ''http://stub'' refusingBackend taskMasterArgs) =
     Inl (Error ''StoryCrafter service error: no consensus messages'')
   \<and> (\<exists>p. snd (handleGenerateEpics ''http://stub'' unsuccessfulBackend taskMasterArgs) =
            Inl (Error (p @ ''boom'')))
   \<and> snd (handleGenerateEpics ''http://stub'' silentBackend taskMasterArgs) =
       Inl (Error ''StoryCrafter service unavailable: http://stub'')
   \<and> snd (handleGenerateEpics ''http://stub'' refusingBackend taskMasterArgs) \<noteq>
       snd (handleGenerateEpics ''http://stub'' silentBackend taskMasterArgs)"
proof -
  have p: "getProp taskMasterArgs ''project_context'' = taskMasterContext"
    by (simp add: taskMasterArgs_def getProp_def)
  have v: "truthy (getProp taskMasterContext ''project_summary'')"
      "truthy (getProp taskMasterContext ''final_decisions'')"
    by (simp_all add: taskMasterContext_def getProp_def)
  have f: "fst (handleGenerateEpics ''http://stub'' backend taskMasterArgs) =
      [Post ''http://stub/generate-epics''
         (wire (JObj [(''consensus_messages'',
                         JArr (map messageJson (consensus_messages taskMasterTransformed))),
                      (''project_metadata'',
                         metadataJson (project_metadata taskMasterTransformed))]))
         60000]" for backend
    by (simp add: handleGenerateEpics_def p v taskMaster_valid transform_taskMaster
        postToService_fst)
  have m: "handleGenerateEpics \<in> set toolHandlers"
    by (simp add: toolHandlers_def)
  let ?u = "''http://stub/generate-epics''"
  let ?b = "wire (JObj [(''consensus_messages'',
                         JArr (map messageJson (consensus_messages taskMasterTransformed))),
                      (''project_metadata'',
                         metadataJson (project_metadata taskMasterTransformed))])"
  have r: "refusingBackend ?u ?b =
      Responded 422 ''Unprocessable Entity'' (JObj [(''detail'', JStr ''no consensus messages'')])"
    by (simp only: refusingBackend_def)
  have s: "silentBackend ?u ?b = NoResponse ''timeout of 60000ms exceeded''"
    by (simp only: silentBackend_def)
  have n: "\<not> (200 \<le> (422::nat) \<and> (422::nat) < 300)"
    by simp
  have 1: "snd (handleGenerateEpics ''http://stub'' refusingBackend taskMasterArgs) =
      Inl (Error (''StoryCrafter service error: ''
        @ toStr (jsOr (optProp (JObj [(''detail'', JStr ''no consensus messages'')]) ''detail'')
                      (JStr ''Unprocessable Entity''))))"
    using C2_failure_classes [OF m f [of refusingBackend]] r n by blast
  have 2: "snd (handleGenerateEpics ''http://stub'' silentBackend taskMasterArgs) =
       Inl (Error (''StoryCrafter service unavailable: '' @ ''http://stub''))"
    using C2_failure_classes [OF m f [of silentBackend]] s by blast
  let ?d = "JObj [(''success'', JBool False), (''error'', JStr ''boom'')]"
  have us: "unsuccessfulBackend ?u ?b = Responded 200 ''OK'' ?d"
    by (simp only: unsuccessfulBackend_def)
  have ud: "(200::nat) \<le> 200 \<and> (200::nat) < 300" "\<not> nullish ?d"
    "\<not> truthy (getProp ?d ''success'')" "truthy (getProp ?d ''error'')"
    "toStr (getProp ?d ''error'') = ''boom''"
    by (simp_all add: nullish_def getProp_def)
  have "\<exists>p. snd (handleGenerateEpics ''http://stub'' unsuccessfulBackend taskMasterArgs) =
            Inl (Error (p @ toStr (getProp ?d ''error'')))"
    using C2_failure_classes [OF m f [of unsuccessfulBackend]] us ud(1-4) by blast
  then have 3: "\<exists>p. snd (handleGenerateEpics ''http://stub'' unsuccessfulBackend taskMasterArgs) =
            Inl (Error (p @ ''boom''))"
    by (simp only: ud(5))
  have 4: "snd (handleGenerateEpics ''http://stub'' refusingBackend taskMasterArgs) \<noteq>
       snd (handleGenerateEpics ''http://stub'' silentBackend taskMasterArgs)"
    using C2_failure_classes [OF m f [of refusingBackend]] m f [of silentBackend] r n s
    by blast
  from 1 2 3 4 show ?thesis
    by (simp add: optProp_def nullish_def getProp_def jsOr_def)
qed

subsection \<open>The transformer on the contexts it accepts\<close>

lemma alexContent_cases:
  "alexContent p =
     (if truthy (jsOr (getProp p ''mvp_features'') (getProp p ''mvpFeatures''))
         \<and> \<not> isArray (jsOr (getProp p ''mvp_features'') (getProp p ''mvpFeatures''))
      then Inl (TypeError ''features.forEach is not a function'')
      else Inr (alexText p))"
  by (cases "jsOr (getProp p ''mvp_features'') (getProp p ''mvpFeatures'')")
     (simp_all add: alexContent_def alexText_def Let_def)

lemma decisionMessages_perspective:
  "decisionMessages (decisionsOf pc) =
     (if truthy (perspective pc ''product'')
      then (case alexContent (perspective pc ''product'') of
              Inl e \<Rightarrow> Inl e
            | Inr c \<Rightarrow>
                Inr (\<lparr>role = ''alex'', content = c\<rparr>
                     # (if truthy (perspective pc ''technical'')
                        then [\<lparr>role = ''blake'',
                               content = blakeContent (perspective pc ''technical'')\<rparr>]
                        else [])
                     @ (if truthy (perspective pc ''project'')
                        then [\<lparr>role = ''casey'',
                               content = caseyContent (perspective pc ''project'')\<rparr>]
                        else [])))
      else Inr ((if truthy (perspective pc ''technical'')
                 then [\<lparr>role = ''blake'',
                        content = blakeContent (perspective pc ''technical'')\<rparr>]
                 else [])
                @ (if truthy (perspective pc ''project'')
                   then [\<lparr>role = ''casey'',
                          content = caseyContent (perspective pc ''project'')\<rparr>]
                   else [])))"
proof (cases "truthy (decisionsOf pc)")
  case True
  then have p: "perspective pc k = getProp (decisionsOf pc) k" for k
    by (simp add: perspective_def)
  show ?thesis
    unfolding p decisionMessages_def Let_def using True by (simp split: sum.splits)
next
  case False
  then have p: "perspective pc k = JUndefined" for k
    by (simp add: perspective_def)
  show ?thesis
    unfolding p using False by (simp add: decisionMessages_def)
qed

lemma transform_perspective:
  "\<not> nullish pc \<Longrightarrow>
   transformProjectContext pc =
     (case decisionMessages (decisionsOf pc) of
        Inl e \<Rightarrow> Inl e
      | Inr ms \<Rightarrow>
          Inr \<lparr>consensus_messages =
                 (if truthy (summaryOf pc)
                  then [\<lparr>role = ''system'', content = systemContent (summaryOf pc)\<rparr>]
                  else []) @ ms,
               project_metadata = metadata (summaryOf pc)\<rparr>)"
  unfolding transformProjectContext_def summaryOf_def decisionsOf_def Let_def
  by simp

lemma transform_accepted:
  assumes "transformAccepts pc"
  shows "transformProjectContext pc =
           Inr \<lparr>consensus_messages = expectedMessages pc,
                project_metadata = metadata (summaryOf pc)\<rparr>"
proof -
  from assms have n: "\<not> nullish pc"
    and f: "truthy (featuresOf pc) \<longrightarrow> isArray (featuresOf pc)"
    by (simp_all add: transformAccepts_def)
  from f have a: "alexContent (perspective pc ''product'') =
      Inr (alexText (perspective pc ''product''))"
    by (simp add: alexContent_cases featuresOf_def)
  show ?thesis
    by (simp add: transform_perspective [OF n] decisionMessages_perspective a
        expectedMessages_def)
qed

lemma getProp_falsy: "\<not> truthy v \<Longrightarrow> getProp v k = JUndefined"
  by (cases v) (simp_all add: getProp_def)

lemma transform_rejected:
  assumes "\<not> transformAccepts pc"
  shows "\<exists>m. transformProjectContext pc = Inl (TypeError m)"
proof (cases "nullish pc")
  case True
  then show ?thesis
    by (simp add: transformProjectContext_def cannotRead_def)
next
  case False
  with assms have f: "truthy (featuresOf pc)" "\<not> isArray (featuresOf pc)"
    by (simp_all add: transformAccepts_def)
  have p: "truthy (perspective pc ''product'')"
  proof (rule ccontr)
    assume "\<not> truthy (perspective pc ''product'')"
    then have "featuresOf pc = JUndefined"
      by (simp add: featuresOf_def getProp_falsy jsOr_def)
    with f(1) show False by simp
  qed
  from f have a: "alexContent (perspective pc ''product'') =
      Inl (TypeError ''features.forEach is not a function'')"
    by (simp add: alexContent_cases featuresOf_def)
  show ?thesis
    by (simp add: transform_perspective [OF False] decisionMessages_perspective p a)
qed


subsection \<open>C7: the order of the messages\<close>







subsection \<open>C8: snake case and camel case\<close>

text \<open>
  C8, as stated, fails for the empty string: with \<^verbatim>\<open>project_name: ""\<close> and
  \<^verbatim>\<open>projectName: "Camel"\<close> both present, the system message and the metadata carry
  \<^verbatim>\<open>Camel\<close>, not the snake-case value.
\<close>

theorem C8_counterexample:
  "getProp (summaryOf emptySnakeContext) ''project_name'' = JStr ''''
   \<and> firstMessageOf (transformProjectContext emptySnakeContext) =
       Some \<lparr>role = ''system'',
             content = ''Project: Camel\<newline>\<newline>\<newline>\<newline>Target Users: Not specified\<newline>Platform: Not specified\<newline>Timeline: Not specified\<newline>Team Size: Not specified''\<rparr>
   \<and> metadataOf (transformProjectContext emptySnakeContext) =
       Some \<lparr>project_name = JStr ''Camel'', project_description = JUndefined,
             target_users = JUndefined, platform = JUndefined, timeline = JUndefined,
             team_size = JUndefined\<rparr>"
  by (simp add: emptySnakeContext_def summaryOf_def transformProjectContext_def nullish_def
      jsOr_def getProp_def decisionMessages_def metadata_def systemContent_def nl_def
      firstMessageOf_def metadataOf_def)

text \<open>
  C8, amended.  For every project context the transformer accepts and whose project summary
  is present: for each field that has a snake-case and a camel-case spelling
  (\<^verbatim>\<open>project_name\<close>, \<^verbatim>\<open>project_description\<close>, \<^verbatim>\<open>target_users\<close>,
  \<^verbatim>\<open>team_size\<close>) the transformer uses the snake-case value whenever that value is truthy,
  in the system message and in the metadata alike, whatever the camel-case value is; the
  camel-case value is used when the snake-case value is missing or falsy (the empty string,
  \<^verbatim>\<open>null\<close>, \<^verbatim>\<open>0\<close>, \<^verbatim>\<open>false\<close>).  In the message a value that is still falsy is replaced
  by the default text of its line.
\<close>

theorem C8_snake_case_preferred_when_truthy:
  assumes "transformAccepts pc" and "truthy (summaryOf pc)" and "s = summaryOf pc"
  shows "firstMessageOf (transformProjectContext pc) =
           Some \<lparr>role = ''system'',
                 content =
                   ''Project: ''
                   @ orDefault (preferSnake s ''project_name'' ''projectName'') ''Untitled Project''
                   @ nl @ nl
                   @ orDefault (preferSnake s ''project_description'' ''projectDescription'') ''''
                   @ nl @ nl @ ''Target Users: ''
                   @ orDefault (preferSnake s ''target_users'' ''targetUsers'') ''Not specified''
                   @ nl @ ''Platform: '' @ orDefault (getProp s ''platform'') ''Not specified''
                   @ nl @ ''Timeline: '' @ orDefault (getProp s ''timeline'') ''Not specified''
                   @ nl @ ''Team Size: ''
                   @ orDefault (preferSnake s ''team_size'' ''teamSize'') ''Not specified''\<rparr>
       \<and> metadataOf (transformProjectContext pc) =
           Some \<lparr>project_name = preferSnake s ''project_name'' ''projectName'',
                 project_description =
                   preferSnake s ''project_description'' ''projectDescription'',
                 target_users = preferSnake s ''target_users'' ''targetUsers'',
                 platform = getProp s ''platform'',
                 timeline = getProp s ''timeline'',
                 team_size = preferSnake s ''team_size'' ''teamSize''\<rparr>"
proof -
  have d: "toStr (jsOr v (JStr d)) = orDefault v d" for v d
    by (simp add: jsOr_def orDefault_def)
  have p: "jsOr (getProp s a) (getProp s b) = preferSnake s a b" for a b
    by (simp add: jsOr_def preferSnake_def)
  have c: "systemContent s =
             ''Project: ''
             @ orDefault (preferSnake s ''project_name'' ''projectName'') ''Untitled Project''
             @ nl @ nl
             @ orDefault (preferSnake s ''project_description'' ''projectDescription'') ''''
             @ nl @ nl @ ''Target Users: ''
             @ orDefault (preferSnake s ''target_users'' ''targetUsers'') ''Not specified''
             @ nl @ ''Platform: '' @ orDefault (getProp s ''platform'') ''Not specified''
             @ nl @ ''Timeline: '' @ orDefault (getProp s ''timeline'') ''Not specified''
             @ nl @ ''Team Size: ''
             @ orDefault (preferSnake s ''team_size'' ''teamSize'') ''Not specified''"
    unfolding systemContent_def p d by (rule refl)
  have m: "metadata s =
           \<lparr>project_name = preferSnake s ''project_name'' ''projectName'',
                 project_description =
                   preferSnake s ''project_description'' ''projectDescription'',
                 target_users = preferSnake s ''target_users'' ''targetUsers'',
                 platform = getProp s ''platform'',
                 timeline = getProp s ''timeline'',
                 team_size = preferSnake s ''team_size'' ''teamSize''\<rparr>"
    using assms(2,3) unfolding metadata_def p by simp
  have f: "firstMessageOf (transformProjectContext pc) =
      Some \<lparr>role = ''system'', content = systemContent s\<rparr>"
    using assms(2,3)
    by (simp add: transform_accepted [OF assms(1)] firstMessageOf_def expectedMessages_def)
  have g: "metadataOf (transformProjectContext pc) = Some (metadata s)"
    using assms(3)
    by (simp add: transform_accepted [OF assms(1)] metadataOf_def)
  show ?thesis
    unfolding f g c m by simp
qed

text \<open>
  The amended C8 at a summary with \<^verbatim>\<open>project_name: "Snake"\<close>,
  \<^verbatim>\<open>projectName: "Camel"\<close>, \<^verbatim>\<open>team_size: ""\<close> and \<^verbatim>\<open>teamSize: "3"\<close>.
\<close>

theorem C8_snake_case_preferred_when_truthy_witness:
  "firstMessageOf (transformProjectContext bothSpellingsContext) =
     Some \<lparr>role = ''system'',
           content = ''Project: Snake\<newline>\<newline>\<newline>\<newline>Target Users: Not specified\<newline>Platform: Not specified\<newline>Timeline: Not specified\<newline>Team Size: 3''\<rparr>
   \<and> metadataOf (transformProjectContext bothSpellingsContext) =
       Some \<lparr>project_name = JStr ''Snake'', project_description = JUndefined,
             target_users = JUndefined, platform = JUndefined, timeline = JUndefined,
             team_size = JStr ''3''\<rparr>"
proof -
  let ?s = "JObj [(''project_name'', JStr ''Snake''), (''projectName'', JStr ''Camel''),
                  (''team_size'', JStr ''''), (''teamSize'', JStr ''3'')]"
  have a: "transformAccepts bothSpellingsContext"
    by (simp add: transformAccepts_def bothSpellingsContext_def nullish_def featuresOf_def
        perspective_def decisionsOf_def jsOr_def getProp_def)
  have s: "?s = summaryOf bothSpellingsContext"
    by (simp add: bothSpellingsContext_def summaryOf_def jsOr_def getProp_def)
  have t: "truthy (summaryOf bothSpellingsContext)"
    by (simp add: s [symmetric])
  show ?thesis
    using C8_snake_case_preferred_when_truthy [OF a t s]
    by (simp add: preferSnake_def orDefault_def getProp_def nl_def)
qed

subsection \<open>C5: how the perspective messages are built\<close>

lemma foldl_append_lines: "foldl (\<lambda>acc x. acc @ f x) init xs = init @ concat (map f xs)"
  by (induction xs arbitrary: init) simp_all











subsection \<open>C6: which fields reach the output\<close>

lemma agreeOn_getProp: "agreeOn ks a b \<Longrightarrow> k \<in> set ks \<Longrightarrow> getProp a k = getProp b k"
  by (simp add: agreeOn_def)

lemma agreeOn_truthy: "agreeOn ks a b \<Longrightarrow> truthy a = truthy b"
  by (simp add: agreeOn_def)

lemma systemContent_agree:
  assumes "agreeOn summaryKeys s s'"
  shows "systemContent s = systemContent s'"
proof -
  have e: "getProp s ''project_name'' = getProp s' ''project_name''"
    "getProp s ''projectName'' = getProp s' ''projectName''"
    "getProp s ''project_description'' = getProp s' ''project_description''"
    "getProp s ''projectDescription'' = getProp s' ''projectDescription''"
    "getProp s ''target_users'' = getProp s' ''target_users''"
    "getProp s ''targetUsers'' = getProp s' ''targetUsers''"
    "getProp s ''platform'' = getProp s' ''platform''"
    "getProp s ''timeline'' = getProp s' ''timeline''"
    "getProp s ''team_size'' = getProp s' ''team_size''"
    "getProp s ''teamSize'' = getProp s' ''teamSize''"
    by (rule agreeOn_getProp [OF assms], simp add: summaryKeys_def)+
  show ?thesis
    unfolding systemContent_def e by (rule refl)
qed

lemma metadata_agree:
  assumes "agreeOn summaryKeys s s'"
  shows "metadata s = metadata s'"
proof -
  have e: "getProp s ''project_name'' = getProp s' ''project_name''"
    "getProp s ''projectName'' = getProp s' ''projectName''"
    "getProp s ''project_description'' = getProp s' ''project_description''"
    "getProp s ''projectDescription'' = getProp s' ''projectDescription''"
    "getProp s ''target_users'' = getProp s' ''target_users''"
    "getProp s ''targetUsers'' = getProp s' ''targetUsers''"
    "getProp s ''platform'' = getProp s' ''platform''"
    "getProp s ''timeline'' = getProp s' ''timeline''"
    "getProp s ''team_size'' = getProp s' ''team_size''"
    "getProp s ''teamSize'' = getProp s' ''teamSize''"
    by (rule agreeOn_getProp [OF assms], simp add: summaryKeys_def)+
  show ?thesis
    unfolding metadata_def e agreeOn_truthy [OF assms] by (rule refl)
qed

lemma alexContent_agree:
  assumes "agreeOn productKeys p p'"
  shows "alexContent p = alexContent p'"
proof -
  have e: "getProp p ''mvp_features'' = getProp p' ''mvp_features''"
    "getProp p ''mvpFeatures'' = getProp p' ''mvpFeatures''"
    "getProp p ''target_users'' = getProp p' ''target_users''"
    "getProp p ''targetUsers'' = getProp p' ''targetUsers''"
    "getProp p ''development_approach'' = getProp p' ''development_approach''"
    "getProp p ''developmentApproach'' = getProp p' ''developmentApproach''"
    by (rule agreeOn_getProp [OF assms], simp add: productKeys_def)+
  show ?thesis
    unfolding alexContent_def e by (rule refl)
qed

lemma caseyContent_agree:
  assumes "agreeOn projectKeys q q'"
  shows "caseyContent q = caseyContent q'"
proof -
  have e: "getProp q ''timeline'' = getProp q' ''timeline''"
    "getProp q ''team'' = getProp q' ''team''"
    "getProp q ''milestones'' = getProp q' ''milestones''"
    "getProp q ''testing'' = getProp q' ''testing''"
    by (rule agreeOn_getProp [OF assms], simp add: projectKeys_def)+
  show ?thesis
    unfolding caseyContent_def e by (rule refl)
qed

lemma transform_agree:
  assumes "\<not> nullish pc" and "\<not> nullish pc'"
    and s: "agreeOn summaryKeys (summaryOf pc') (summaryOf pc)"
    and p: "agreeOn productKeys (perspective pc' ''product'') (perspective pc ''product'')"
    and t: "perspective pc' ''technical'' = perspective pc ''technical''"
    and q: "agreeOn projectKeys (perspective pc' ''project'') (perspective pc ''project'')"
  shows "transformProjectContext pc' = transformProjectContext pc"
proof -
  have ts: "truthy (summaryOf pc') = truthy (summaryOf pc)"
    and tp: "truthy (perspective pc' ''product'') = truthy (perspective pc ''product'')"
    and tq: "truthy (perspective pc' ''project'') = truthy (perspective pc ''project'')"
    using s p q by (simp_all add: agreeOn_def)
  have d: "decisionMessages (decisionsOf pc') = decisionMessages (decisionsOf pc)"
    unfolding decisionMessages_perspective tp tq t alexContent_agree [OF p]
      caseyContent_agree [OF q]
    by (rule refl)
  show ?thesis
    unfolding transform_perspective [OF assms(1)] transform_perspective [OF assms(2)] d ts
      systemContent_agree [OF s] metadata_agree [OF s]
    by (rule refl)
qed

lemma trim_trailing:
  assumes "\<not> isSpace h"
  shows "\<exists>ws. (\<forall>x\<in>set ws. isSpace x) \<and> trim (h # x) @ ws = h # x"
proof -
  let ?ws = "rev (takeWhile isSpace (rev (h # x)))"
  have "trim (h # x) = rev (dropWhile isSpace (rev (h # x)))"
    using assms by (simp add: trim_def)
  then have "trim (h # x) @ ?ws = rev (takeWhile isSpace (rev (h # x)) @ dropWhile isSpace (rev (h # x)))"
    by (simp only: rev_append)
  then have "trim (h # x) @ ?ws = h # x"
    by (simp only: takeWhile_dropWhile_id rev_rev_ident)
  moreover have "\<forall>c\<in>set ?ws. isSpace c"
    by (auto dest: set_takeWhileD)
  ultimately show ?thesis by blast
qed

lemma sublist_concat_map: "x \<in> set xs \<Longrightarrow> sublist (f x @ e) (h @ concat (map (\<lambda>y. f y @ e) xs))"
proof -
  assume "x \<in> set xs"
  then obtain ys zs where "xs = ys @ x # zs"
    by (auto dest: split_list)
  then have "h @ concat (map (\<lambda>y. f y @ e) xs) =
      (h @ concat (map (\<lambda>y. f y @ e) ys)) @ (f x @ e) @ concat (map (\<lambda>y. f y @ e) zs)"
    by simp
  then show ?thesis
    by (simp only: sublist_appendI)
qed

lemma sublist_drop_end: "sublist (a @ e) b \<Longrightarrow> sublist a b"
  unfolding sublist_def by (metis append_assoc)

lemma technical_lines_appear:
  "\<exists>ws. (\<forall>x\<in>set ws. isSpace x)
      \<and> (\<forall>k\<in>set (objectKeys tech).
            sublist (label k @ '': '' @ toStr (getProp tech k)) (blakeContent tech @ ws))"
proof -
  let ?L = "concat (map (\<lambda>k. (label k @ '': '' @ toStr (getProp tech k)) @ nl) (objectKeys tech))"
  let ?R = "''echnical Architect Perspective - Architecture & Stack:'' @ nl @ nl"
  have b: "blakeContent tech = trim (CHR ''T'' # (?R @ ?L))"
    unfolding blakeContent_def foldl_append_lines by simp
  have "\<not> isSpace CHR ''T''"
    by (simp add: isSpace_def)
  from trim_trailing [OF this, of "?R @ ?L"] obtain ws where
    ws: "\<forall>x\<in>set ws. isSpace x" and e: "blakeContent tech @ ws = CHR ''T'' # (?R @ ?L)"
    unfolding b by blast
  have "sublist (label k @ '': '' @ toStr (getProp tech k)) (blakeContent tech @ ws)"
    if "k \<in> set (objectKeys tech)" for k
  proof -
    have "sublist ((label k @ '': '' @ toStr (getProp tech k)) @ nl) ((CHR ''T'' # ?R) @ ?L)"
      by (rule sublist_concat_map [OF that])
    then have "sublist (label k @ '': '' @ toStr (getProp tech k)) ((CHR ''T'' # ?R) @ ?L)"
      by (rule sublist_drop_end)
    then show ?thesis
      unfolding e by (simp only: append_Cons)
  qed
  with ws show ?thesis by blast
qed

text \<open>
  C6, as stated, fails: the field \<^verbatim>\<open>budget\<close> of the project summary, the sub-field
  \<^verbatim>\<open>risk\<close> of the product perspective and the sub-field \<^verbatim>\<open>owner\<close> of the project
  perspective occur neither in a message nor in the metadata.
\<close>

theorem C6_counterexample:
  "transformProjectContext extraFieldsContext =
     Inr \<lparr>consensus_messages =
            [\<lparr>role = ''system'',
              content = ''Project: TaskMaster\<newline>\<newline>\<newline>\<newline>Target Users: Not specified\<newline>Platform: Not specified\<newline>Timeline: Not specified\<newline>Team Size: Not specified''\<rparr>,
             \<lparr>role = ''alex'', content = ''Product Manager Perspective - MVP Requirements:''\<rparr>,
             \<lparr>role = ''blake'',
              content = ''Technical Architect Perspective - Architecture & Stack:\<newline>\<newline>Frontend: React''\<rparr>,
             \<lparr>role = ''casey'',
              content = ''Project Manager Perspective - Timeline & Execution:''\<rparr>],
          project_metadata =
            \<lparr>project_name = JStr ''TaskMaster'', project_description = JUndefined,
             target_users = JUndefined, platform = JUndefined, timeline = JUndefined,
             team_size = JUndefined\<rparr>\<rparr>
   \<and> \<not> sublist ''50k'' (allText (transformProjectContext extraFieldsContext))
   \<and> \<not> sublist ''high'' (allText (transformProjectContext extraFieldsContext))
   \<and> \<not> sublist ''Sam'' (allText (transformProjectContext extraFieldsContext))"
proof -
  have 1: "transformProjectContext extraFieldsContext =
     Inr \<lparr>consensus_messages =
            [\<lparr>role = ''system'',
              content = ''Project: TaskMaster\<newline>\<newline>\<newline>\<newline>Target Users: Not specified\<newline>Platform: Not specified\<newline>Timeline: Not specified\<newline>Team Size: Not specified''\<rparr>,
             \<lparr>role = ''alex'', content = ''Product Manager Perspective - MVP Requirements:''\<rparr>,
             \<lparr>role = ''blake'',
              content = ''Technical Architect Perspective - Architecture & Stack:\<newline>\<newline>Frontend: React''\<rparr>,
             \<lparr>role = ''casey'',
              content = ''Project Manager Perspective - Timeline & Execution:''\<rparr>],
          project_metadata =
            \<lparr>project_name = JStr ''TaskMaster'', project_description = JUndefined,
             target_users = JUndefined, platform = JUndefined, timeline = JUndefined,
             team_size = JUndefined\<rparr>\<rparr>"
    by (simp add: extraFieldsContext_def transformProjectContext_def nullish_def
        jsOr_def getProp_def decisionMessages_def metadata_def systemContent_def
        alexContent_def blakeContent_def caseyContent_def objectKeys_def label_def
        replaceUnderscores_def isWordChar_def toUpperChar_def trim_def isSpace_def nl_def)
  have 2: "\<not> sublist ''50k'' (allText (transformProjectContext extraFieldsContext))"
    unfolding 1 by (simp add: allText_def messagesOf_def sublist_code)
  have 3: "\<not> sublist ''high'' (allText (transformProjectContext extraFieldsContext))"
    unfolding 1 by (simp add: allText_def messagesOf_def sublist_code)
  have 4: "\<not> sublist ''Sam'' (allText (transformProjectContext extraFieldsContext))"
    unfolding 1 by (simp add: allText_def messagesOf_def sublist_code)
  from 1 2 3 4 show ?thesis by (simp only: simp_thms)
qed

text \<open>
  C6, amended.  For every project context the transformer accepts: when the project summary
  is present, its six fields \<^verbatim>\<open>project_name\<close>, \<^verbatim>\<open>project_description\<close>,
  \<^verbatim>\<open>target_users\<close>, \<^verbatim>\<open>platform\<close>, \<^verbatim>\<open>timeline\<close> and \<^verbatim>\<open>team_size\<close> (the snake-case
  value when truthy, else the camel-case one) are the metadata values; when the technical
  perspective is present, every one of its sub-fields appears as a labeled line in the blake
  message (up to the white space that trimming removes from the end of the message).
  Nothing else of the project summary, nothing of the product perspective beyond
  \<^verbatim>\<open>mvp_features\<close>, \<^verbatim>\<open>target_users\<close> and \<^verbatim>\<open>development_approach\<close> (either spelling)
  and nothing of the project perspective beyond \<^verbatim>\<open>timeline\<close>, \<^verbatim>\<open>team\<close>,
  \<^verbatim>\<open>milestones\<close> and \<^verbatim>\<open>testing\<close> reaches the output: a context that agrees with the
  given one on these fields and on the technical perspective is transformed to the same
  result, so every other field is dropped without notice, as \<^verbatim>\<open>questions_and_answers\<close> is.
\<close>

theorem C6_fields_carried_or_dropped:
  assumes "transformAccepts pc" and "s = summaryOf pc" and "tech = perspective pc ''technical''"
  shows "(truthy s \<longrightarrow>
            metadataOf (transformProjectContext pc) =
              Some \<lparr>project_name = preferSnake s ''project_name'' ''projectName'',
                    project_description =
                      preferSnake s ''project_description'' ''projectDescription'',
                    target_users = preferSnake s ''target_users'' ''targetUsers'',
                    platform = getProp s ''platform'',
                    timeline = getProp s ''timeline'',
                    team_size = preferSnake s ''team_size'' ''teamSize''\<rparr>)
       \<and> (truthy tech \<longrightarrow>
            (\<exists>c ws. \<lparr>role = ''blake'', content = c\<rparr>
                        \<in> set (messagesOf (transformProjectContext pc))
                  \<and> (\<forall>x\<in>set ws. isSpace x)
                  \<and> (\<forall>k\<in>set (objectKeys tech).
                        sublist (label k @ '': '' @ toStr (getProp tech k)) (c @ ws))))
       \<and> (\<forall>pc'. \<not> nullish pc'
                \<and> agreeOn summaryKeys (summaryOf pc') s
                \<and> agreeOn productKeys (perspective pc' ''product'') (perspective pc ''product'')
                \<and> perspective pc' ''technical'' = tech
                \<and> agreeOn projectKeys (perspective pc' ''project'') (perspective pc ''project'')
                \<longrightarrow> transformProjectContext pc' = transformProjectContext pc)"
proof -
  from assms(1) have n: "\<not> nullish pc"
    by (simp add: transformAccepts_def)
  have j: "jsOr (getProp s a) (getProp s b) = preferSnake s a b" for a b
    by (simp add: jsOr_def preferSnake_def)
  have 1: "metadataOf (transformProjectContext pc) =
              Some \<lparr>project_name = preferSnake s ''project_name'' ''projectName'',
                    project_description =
                      preferSnake s ''project_description'' ''projectDescription'',
                    target_users = preferSnake s ''target_users'' ''targetUsers'',
                    platform = getProp s ''platform'',
                    timeline = getProp s ''timeline'',
                    team_size = preferSnake s ''team_size'' ''teamSize''\<rparr>"
    if "truthy s"
    using that
    by (simp add: transform_accepted [OF assms(1)] metadataOf_def assms(2) [symmetric]
        metadata_def j)
  have 2: "\<exists>c ws. \<lparr>role = ''blake'', content = c\<rparr>
                        \<in> set (messagesOf (transformProjectContext pc))
                  \<and> (\<forall>x\<in>set ws. isSpace x)
                  \<and> (\<forall>k\<in>set (objectKeys tech).
                        sublist (label k @ '': '' @ toStr (getProp tech k)) (c @ ws))"
    if "truthy tech"
  proof -
    have "\<lparr>role = ''blake'', content = blakeContent tech\<rparr>
            \<in> set (messagesOf (transformProjectContext pc))"
      using that
      by (simp add: transform_accepted [OF assms(1)] messagesOf_def expectedMessages_def
          assms(3) [symmetric])
    with technical_lines_appear [of tech] show ?thesis by blast
  qed
  have 3: "transformProjectContext pc' = transformProjectContext pc"
    if "\<not> nullish pc'" "agreeOn summaryKeys (summaryOf pc') s"
      "agreeOn productKeys (perspective pc' ''product'') (perspective pc ''product'')"
      "perspective pc' ''technical'' = tech"
      "agreeOn projectKeys (perspective pc' ''project'') (perspective pc ''project'')"
    for pc'
    using transform_agree [OF n that(1)] that(2-5) assms(2,3) by simp
  from 1 2 3 show ?thesis by blast
qed

text \<open>
  The amended C6 at a context with the extra fields \<^verbatim>\<open>budget\<close>, \<^verbatim>\<open>risk\<close>, \<^verbatim>\<open>owner\<close>
  and \<^verbatim>\<open>questions_and_answers\<close>, and the same context without them.
\<close>

theorem C6_fields_carried_or_dropped_witness:
  "metadataOf (transformProjectContext extraFieldsContext) =
     Some \<lparr>project_name = JStr ''TaskMaster'', project_description = JUndefined,
           target_users = JUndefined, platform = JUndefined, timeline = JUndefined,
           team_size = JUndefined\<rparr>
   \<and> (\<exists>c ws. \<lparr>role = ''blake'', content = c\<rparr>
                 \<in> set (messagesOf (transformProjectContext extraFieldsContext))
            \<and> (\<forall>x\<in>set ws. isSpace x)
            \<and> sublist ''Frontend: React'' (c @ ws))
   \<and> transformProjectContext strippedContext = transformProjectContext extraFieldsContext"
proof -
  let ?s = "JObj [(''project_name'', JStr ''TaskMaster''), (''budget'', JStr ''50k'')]"
  let ?t = "JObj [(''frontend'', JStr ''React'')]"
  have a: "transformAccepts extraFieldsContext"
    by (simp add: transformAccepts_def extraFieldsContext_def nullish_def featuresOf_def
        perspective_def decisionsOf_def jsOr_def getProp_def)
  have s: "?s = summaryOf extraFieldsContext"
    by (simp add: extraFieldsContext_def summaryOf_def jsOr_def getProp_def)
  have t: "?t = perspective extraFieldsContext ''technical''"
    by (simp add: extraFieldsContext_def perspective_def decisionsOf_def jsOr_def getProp_def)
  have p: "perspective extraFieldsContext ''product'' = JObj [(''risk'', JStr ''high'')]"
    by (simp add: extraFieldsContext_def perspective_def decisionsOf_def jsOr_def getProp_def)
  have q: "perspective extraFieldsContext ''project'' = JObj [(''owner'', JStr ''Sam'')]"
    by (simp add: extraFieldsContext_def perspective_def decisionsOf_def jsOr_def getProp_def)
  have s': "summaryOf strippedContext = JObj [(''project_name'', JStr ''TaskMaster'')]"
    by (simp add: strippedContext_def summaryOf_def jsOr_def getProp_def)
  have t': "perspective strippedContext ''technical'' = ?t"
    by (simp add: strippedContext_def perspective_def decisionsOf_def jsOr_def getProp_def)
  have p': "perspective strippedContext ''product'' = JObj []"
    by (simp add: strippedContext_def perspective_def decisionsOf_def jsOr_def getProp_def)
  have q': "perspective strippedContext ''project'' = JObj []"
    by (simp add: strippedContext_def perspective_def decisionsOf_def jsOr_def getProp_def)
  have n: "\<not> nullish strippedContext"
    by (simp add: strippedContext_def nullish_def)
  have g: "agreeOn summaryKeys (summaryOf strippedContext) ?s"
    "agreeOn productKeys (perspective strippedContext ''product'')
       (perspective extraFieldsContext ''product'')"
    "agreeOn projectKeys (perspective strippedContext ''project'')
       (perspective extraFieldsContext ''project'')"
    by (simp_all add: s' p p' q q' agreeOn_def summaryKeys_def productKeys_def
        projectKeys_def getProp_def)
  have l: "label ''frontend'' @ '': '' @ toStr (getProp ?t ''frontend'') = ''Frontend: React''"
    by (simp add: label_def replaceUnderscores_def isWordChar_def toUpperChar_def getProp_def)
  have k: "objectKeys ?t = [''frontend'']"
    by (simp add: objectKeys_def)
  note c6 = C6_fields_carried_or_dropped [OF a s t]
  have 1: "metadataOf (transformProjectContext extraFieldsContext) =
     Some \<lparr>project_name = JStr ''TaskMaster'', project_description = JUndefined,
           target_users = JUndefined, platform = JUndefined, timeline = JUndefined,
           team_size = JUndefined\<rparr>"
    using c6 by (simp add: preferSnake_def getProp_def)
  have 2: "\<exists>c ws. \<lparr>role = ''blake'', content = c\<rparr>
                 \<in> set (messagesOf (transformProjectContext extraFieldsContext))
            \<and> (\<forall>x\<in>set ws. isSpace x)
            \<and> sublist ''Frontend: React'' (c @ ws)"
    using c6 unfolding k l [symmetric] by auto
  have 3: "transformProjectContext strippedContext = transformProjectContext extraFieldsContext"
    using c6 n g t' by blast
  from 1 2 3 show ?thesis by blast
qed

end
